theory Spec2Isabelle
  imports Main "HOL-Library.AList" "HOL-Library.Sublist"
begin

section \<open>Data model\<close>

text \<open>
  The API of \<^verbatim>\<open>src/index.js\<close> keeps one DynamoDB item per taller (workshop) in the table
  \<^verbatim>\<open>Talleres\<close> and the images in one S3 bucket. An item is a set of named attributes; the
  slides are embedded in the item as a list of objects.

  JavaScript strings are modelled as \<^typ>\<open>string\<close>; the few characters of the source outside
  ASCII are written as their UTF-8 bytes.
\<close>

record slide =
  slide_id :: string
  titulo :: string
  descripcion :: string
  imagenUrl :: "string option"
  createdAt :: string

datatype attr = Str string | Null | Slides "slide list"

type_synonym item = "string \<rightharpoonup> attr"

text \<open>The file that multer hands to a handler as \<^verbatim>\<open>req.file\<close>.\<close>

record upload_file =
  originalname :: string
  path :: string
  mimetype :: string

record request =
  req_tallerId :: string
  req_body :: "string \<rightharpoonup> string"
  req_file :: "upload_file option"

datatype json =
  ErrorBody string
| ItemBody item
| SlideBody slide item
| ItemsBody "item list"
| MessageBody string

record response =
  status :: nat
  body :: json

text \<open>Every call of the AWS SDK that the handlers make, with the key it addresses.\<close>

datatype aws_call =
  S3Upload string
| S3ListObjectsV2 string
| S3DeleteObjects "string list"
| DbGet string
| DbPut string
| DbUpdate string
| DbDelete string
| DbScan

datatype error = AwsError aws_call | FsError string | ValidationException

datatype log_entry = ConsoleError string | ConsoleWarn string

text \<open>
  The state that the handlers act on: the table, the bucket (key, body and content type of
  each object), the SDK calls made so far, in order, and the console.
\<close>

record world =
  table :: "(string \<times> item) list"
  bucket :: "(string \<times> string \<times> string) list"
  calls :: "aws_call list"
  console :: "log_entry list"

text \<open>
  What a request reads from outside the two stores: the values of \<^verbatim>\<open>uuidv4()\<close> and of
  \<^verbatim>\<open>new Date().toISOString()\<close> (the k-th call within the request), Node's
  \<^verbatim>\<open>path.extname\<close>, the temporary files read by \<^verbatim>\<open>fs.readFileSync\<close>, the URL that S3
  reports for a key, and which SDK calls are rejected.
\<close>

record env =
  uuidv4 :: "nat \<Rightarrow> string"
  toISOString :: "nat \<Rightarrow> string"
  extname :: "string \<Rightarrow> string"
  readFileSync :: "string \<rightharpoonup> string"
  s3_location :: "string \<Rightarrow> string"
  fails :: "aws_call \<Rightarrow> bool"

section \<open>The AWS SDK calls\<close>

text \<open>
  A call is recorded in \<^const>\<open>calls\<close> when it is made. A rejected call throws and changes
  neither store.
\<close>

definition called :: "aws_call \<Rightarrow> world \<Rightarrow> world" where
  "called c w = w\<lparr>calls := calls w @ [c]\<rparr>"

definition s3_upload :: "env \<Rightarrow> string \<Rightarrow> string \<Rightarrow> string \<Rightarrow> world \<Rightarrow> (error + string) \<times> world" where
  "s3_upload e key content ctype w =
     (if fails e (S3Upload key) then (Inl (AwsError (S3Upload key)), called (S3Upload key) w)
      else (Inr (s3_location e key),
            (called (S3Upload key) w)\<lparr>bucket := AList.update key (content, ctype) (bucket w)\<rparr>))"

text \<open>
  \<^verbatim>\<open>listObjectsV2\<close> answers with at most 1000 keys and says whether there are more. The
  order of the bucket list stands for the order in which S3 lists the keys.
\<close>

definition s3_listObjectsV2 :: "env \<Rightarrow> string \<Rightarrow> world \<Rightarrow> (error + string list \<times> bool) \<times> world" where
  "s3_listObjectsV2 e pfx w =
     (if fails e (S3ListObjectsV2 pfx)
      then (Inl (AwsError (S3ListObjectsV2 pfx)), called (S3ListObjectsV2 pfx) w)
      else (let ks = filter (prefix pfx) (map fst (bucket w))
            in (Inr (take 1000 ks, 1000 < length ks), called (S3ListObjectsV2 pfx) w)))"

definition s3_deleteObjects :: "env \<Rightarrow> string list \<Rightarrow> world \<Rightarrow> (error + unit) \<times> world" where
  "s3_deleteObjects e ks w =
     (if fails e (S3DeleteObjects ks)
      then (Inl (AwsError (S3DeleteObjects ks)), called (S3DeleteObjects ks) w)
      else (Inr (),
            (called (S3DeleteObjects ks) w)\<lparr>bucket := filter (\<lambda>kv. fst kv \<notin> set ks) (bucket w)\<rparr>))"

definition dynamo_get :: "env \<Rightarrow> string \<Rightarrow> world \<Rightarrow> (error + item option) \<times> world" where
  "dynamo_get e k w =
     (if fails e (DbGet k) then (Inl (AwsError (DbGet k)), called (DbGet k) w)
      else (Inr (map_of (table w) k), called (DbGet k) w))"

definition dynamo_put :: "env \<Rightarrow> string \<Rightarrow> item \<Rightarrow> world \<Rightarrow> (error + unit) \<times> world" where
  "dynamo_put e k it w =
     (if fails e (DbPut k) then (Inl (AwsError (DbPut k)), called (DbPut k) w)
      else (Inr (), (called (DbPut k) w)\<lparr>table := AList.update k it (table w)\<rparr>))"

definition dynamo_delete :: "env \<Rightarrow> string \<Rightarrow> world \<Rightarrow> (error + unit) \<times> world" where
  "dynamo_delete e k w =
     (if fails e (DbDelete k) then (Inl (AwsError (DbDelete k)), called (DbDelete k) w)
      else (Inr (), (called (DbDelete k) w)\<lparr>table := AList.delete k (table w)\<rparr>))"

text \<open>
  The size of an item as DynamoDB counts it: for each attribute the bytes of its name and of
  its value; a string counts its bytes, null one byte, a list or a map three bytes and one
  more for each element. The attributes are those that the handlers write.
\<close>

definition attribute_names :: "string list" where
  "attribute_names =
     [''id'', ''nombre'', ''descripcion'', ''duracion'', ''nivelDificultad'', ''materiales'',
      ''objetivos'', ''finalidades'', ''ciencia'', ''tecnologia'', ''ingenieria'', ''matematicas'',
      ''portadaUrl'', ''carpetaS3'', ''createdAt'', ''slides'', ''updatedAt'']"

definition slide_size :: "slide \<Rightarrow> nat" where
  "slide_size s =
     3 + (1 + length ''id'' + length (slide_id s))
       + (1 + length ''titulo'' + length (titulo s))
       + (1 + length ''descripcion'' + length (descripcion s))
       + (1 + length ''imagenUrl'' + (case imagenUrl s of None \<Rightarrow> 1 | Some u \<Rightarrow> length u))
       + (1 + length ''createdAt'' + length (createdAt s))"

definition attr_size :: "attr \<Rightarrow> nat" where
  "attr_size v =
     (case v of Str s \<Rightarrow> length s | Null \<Rightarrow> 1
      | Slides xs \<Rightarrow> 3 + sum_list (map (\<lambda>s. 1 + slide_size s) xs))"

definition item_size :: "item \<Rightarrow> nat" where
  "item_size it =
     sum_list (map (\<lambda>a. case it a of None \<Rightarrow> 0 | Some v \<Rightarrow> length a + attr_size v)
                 attribute_names)"

text \<open>
  One call of \<^verbatim>\<open>scan\<close> reads the table until the items read add up to 1 MB and answers with
  those items (and a \<^verbatim>\<open>LastEvaluatedKey\<close> for the next call, which the handler never
  makes). The page is the longest front part of the table that fits in the budget; the
  order of the table list stands for the order in which DynamoDB reads the items. The
  bound is on the items as stored, before the projection.
\<close>

fun scan_page :: "nat \<Rightarrow> (string \<times> item) list \<Rightarrow> (string \<times> item) list" where
  "scan_page budget [] = []"
| "scan_page budget (kv # kvs) =
     (if item_size (snd kv) \<le> budget
      then kv # scan_page (budget - item_size (snd kv)) kvs else [])"

definition scan_limit :: nat where
  "scan_limit = 1048576"

definition dynamo_scan :: "env \<Rightarrow> string list \<Rightarrow> world \<Rightarrow> (error + item list) \<times> world" where
  "dynamo_scan e projection w =
     (if fails e DbScan then (Inl (AwsError DbScan), called DbScan w)
      else (Inr (map (\<lambda>kv. snd kv |` set projection) (scan_page scan_limit (table w))),
            called DbScan w))"

text \<open>
  The two update expressions of the slide handler. \<^verbatim>\<open>SET slides = list_append(slides, :nuevo_slide)\<close>
  is rejected by DynamoDB when the item has no list attribute \<^verbatim>\<open>slides\<close>;
  \<^verbatim>\<open>SET slides = :nuevo_slide\<close> overwrites the attribute, and creates the item when the key
  is not in the table. Both set \<^verbatim>\<open>updatedAt\<close> and return the new item (\<^verbatim>\<open>ALL_NEW\<close>).
\<close>

datatype update_expression = ListAppend | SetSlides

definition dynamo_update ::
  "env \<Rightarrow> string \<Rightarrow> update_expression \<Rightarrow> slide list \<Rightarrow> string \<Rightarrow> world \<Rightarrow> (error + item) \<times> world" where
  "dynamo_update e k ux nuevo updatedAt w =
     (if fails e (DbUpdate k) then (Inl (AwsError (DbUpdate k)), called (DbUpdate k) w)
      else (case ux of
          SetSlides \<Rightarrow>
            (let old = (case map_of (table w) k of None \<Rightarrow> [''id'' \<mapsto> Str k] | Some it \<Rightarrow> it);
                 new = old(''slides'' \<mapsto> Slides nuevo, ''updatedAt'' \<mapsto> Str updatedAt)
             in (Inr new, (called (DbUpdate k) w)\<lparr>table := AList.update k new (table w)\<rparr>))
        | ListAppend \<Rightarrow>
            (case map_of (table w) k of
               None \<Rightarrow> (Inl ValidationException, called (DbUpdate k) w)
             | Some it \<Rightarrow>
                 (case it ''slides'' of
                    Some (Slides xs) \<Rightarrow>
                      (let new = it(''slides'' \<mapsto> Slides (xs @ nuevo), ''updatedAt'' \<mapsto> Str updatedAt)
                       in (Inr new, (called (DbUpdate k) w)\<lparr>table := AList.update k new (table w)\<rparr>))
                  | _ \<Rightarrow> (Inl ValidationException, called (DbUpdate k) w)))))"

section \<open>JavaScript values\<close>

text \<open>A text field of the form is absent or a string; absent and the empty string are falsy.\<close>

definition truthy :: "string option \<Rightarrow> bool" where
  "truthy v = (case v of None \<Rightarrow> False | Some s \<Rightarrow> s \<noteq> [])"

text \<open>\<^verbatim>\<open>v || null\<close> and \<^verbatim>\<open>v || d\<close>.\<close>

definition or_null :: "string option \<Rightarrow> attr" where
  "or_null v = (case v of None \<Rightarrow> Null | Some s \<Rightarrow> if s = [] then Null else Str s)"

definition or_default :: "string option \<Rightarrow> string \<Rightarrow> string" where
  "or_default v d = (case v of None \<Rightarrow> d | Some s \<Rightarrow> if s = [] then d else s)"

definition digit_char :: "nat \<Rightarrow> char" where
  "digit_char d = ''0123456789'' ! (d mod 10)"

text \<open>A natural number inside a template literal: its decimal digits.\<close>

function show_nat :: "nat \<Rightarrow> string" where
  "show_nat n = (if n < 10 then [digit_char n] else show_nat (n div 10) @ [digit_char (n mod 10)])"
  by pat_completeness auto
termination
  by (relation "measure id") auto

declare show_nat.simps [simp del]

text \<open>The strings of the source that are not ASCII.\<close>

definition FACIL :: string where
  "FACIL = ''F'' @ [CHR 0xC3, CHR 0x81] @ ''CIL''"

definition o_acute :: string where
  "o_acute = [CHR 0xC3, CHR 0xB3]"

definition a_acute :: string where
  "a_acute = [CHR 0xC3, CHR 0xA1]"

section \<open>POST /talleres\<close>

text \<open>
  The handlers below follow the routes of \<^verbatim>\<open>src/index.js\<close>. What multer does before a handler
  runs (storing the upload, refusing a file that is not an image) and the removal of the
  temporary file afterwards are outside the two stores and are not modelled.

  A \<^verbatim>\<open>catch\<close> block writes to the console and answers 500. The \<^verbatim>\<open>details\<close> of that answer
  repeat the text of the exception and are left out of the body.
\<close>

definition error500 :: "string \<Rightarrow> world \<Rightarrow> response \<times> world" where
  "error500 msg w =
     (\<lparr>status = 500, body = ErrorBody msg\<rparr>, w\<lparr>console := console w @ [ConsoleError (msg @ '':'')]\<rparr>)"

definition crear_taller :: "env \<Rightarrow> world \<Rightarrow> request \<Rightarrow> response \<times> world" where
  "crear_taller e w req =
     (let nombre = req_body req ''nombre'';
          descripcion = req_body req ''descripcion'';
          duracion = req_body req ''duracion'';
          nivelDificultad = req_body req ''nivelDificultad'';
          materiales = req_body req ''materiales'';
          objetivos = req_body req ''objetivos'';
          finalidades = req_body req ''finalidades'';
          ciencia = req_body req ''ciencia'';
          tecnologia = req_body req ''tecnologia'';
          ingenieria = req_body req ''ingenieria'';
          matematicas = req_body req ''matematicas''
      in
      if \<not> truthy nombre \<or> \<not> truthy descripcion
      then (\<lparr>status = 400,
             body = ErrorBody (''Nombre y descripci'' @ o_acute @ ''n son requeridos'')\<rparr>, w)
      else case req_file req of
        None \<Rightarrow> (\<lparr>status = 400, body = ErrorBody ''La portada es requerida''\<rparr>, w)
      | Some portada \<Rightarrow>
          (let tallerId = uuidv4 e 0;
               portadaFileName = ''portada-'' @ uuidv4 e 1 @ extname e (originalname portada)
           in case readFileSync e (path portada) of
             None \<Rightarrow> error500 ''Error al crear taller'' w
           | Some portadaContent \<Rightarrow>
               (case s3_upload e (''talleres/'' @ tallerId @ ''/'' @ portadaFileName)
                       portadaContent (mimetype portada) w of
                  (Inl err, w1) \<Rightarrow> error500 ''Error al crear taller'' w1
                | (Inr location, w1) \<Rightarrow>
                    (let summary =
                           [(''id'', Str tallerId),
                            (''nombre'', Str (the nombre)),
                            (''descripcion'', Str (the descripcion)),
                            (''duracion'', or_null duracion),
                            (''nivelDificultad'', Str (or_default nivelDificultad FACIL)),
                            (''materiales'', or_null materiales),
                            (''objetivos'', or_null objetivos),
                            (''finalidades'', or_null finalidades),
                            (''ciencia'', or_null ciencia),
                            (''tecnologia'', or_null tecnologia),
                            (''ingenieria'', or_null ingenieria),
                            (''matematicas'', or_null matematicas),
                            (''portadaUrl'', Str location),
                            (''carpetaS3'', Str (''talleres/'' @ tallerId @ ''/'')),
                            (''createdAt'', Str (toISOString e 0))];
                         Item = map_of (summary @ [(''slides'', Slides [])])
                     in case dynamo_put e tallerId Item w1 of
                       (Inl err, w2) \<Rightarrow> error500 ''Error al crear taller'' w2
                     | (Inr u, w2) \<Rightarrow> (\<lparr>status = 201, body = ItemBody (map_of summary)\<rparr>, w2)))))"

section \<open>POST /talleres/:tallerId/slides\<close>

text \<open>
  \<^verbatim>\<open>taller.Item.slides\<close> as a condition and its \<^verbatim>\<open>length\<close>: a missing attribute, null and
  the empty string are falsy, a list is truthy even when empty. (The length of a string
  attribute is counted in bytes here; the API itself only ever stores a list.)
\<close>

definition js_truthy :: "attr option \<Rightarrow> bool" where
  "js_truthy v = (case v of None \<Rightarrow> False | Some Null \<Rightarrow> False
                  | Some (Str s) \<Rightarrow> s \<noteq> [] | Some (Slides xs) \<Rightarrow> True)"

definition js_length :: "attr option \<Rightarrow> nat" where
  "js_length v = (case v of Some (Str s) \<Rightarrow> length s | Some (Slides xs) \<Rightarrow> length xs | _ \<Rightarrow> 0)"

text \<open>The \<^verbatim>\<open>updateParams\<close> that the handler has built when it calls \<^verbatim>\<open>dynamoDB.update\<close>.\<close>

record update_params =
  up_Key :: string
  up_UpdateExpression :: update_expression
  up_nuevoSlide :: slide
  up_updatedAt :: string

text \<open>The optional upload of the slide's image: the URL, or null without an image.\<close>

definition subir_imagen ::
  "env \<Rightarrow> string \<Rightarrow> upload_file option \<Rightarrow> world \<Rightarrow> (error + string option) \<times> world" where
  "subir_imagen e tallerId imagen w =
     (case imagen of
        None \<Rightarrow> (Inr None, w)
      | Some f \<Rightarrow>
          (let imagenFileName = ''slide-'' @ uuidv4 e 0 @ extname e (originalname f)
           in case readFileSync e (path f) of
             None \<Rightarrow> (Inl (FsError (path f)), w)
           | Some imagenContent \<Rightarrow>
               (case s3_upload e (''talleres/'' @ tallerId @ ''/'' @ imagenFileName)
                       imagenContent (mimetype f) w of
                  (Inl err, w1) \<Rightarrow> (Inl err, w1)
                | (Inr location, w1) \<Rightarrow> (Inr (Some location), w1))))"

text \<open>
  The handler up to the point where it calls \<^verbatim>\<open>dynamoDB.update\<close> (lines 243 to 315): it
  answers, or it has the update to send. The title and the update expression are computed
  from the item that \<^verbatim>\<open>dynamoDB.get\<close> returned.
\<close>

definition agregar_slide_prepare ::
  "env \<Rightarrow> world \<Rightarrow> request \<Rightarrow> (response + update_params) \<times> world" where
  "agregar_slide_prepare e w req =
     (let tallerId = req_tallerId req;
          descripcion = req_body req ''descripcion'';
          imagen = req_file req
      in
      if \<not> truthy descripcion
      then (Inl \<lparr>status = 400, body = ErrorBody (''Descripci'' @ o_acute @ ''n es requerida'')\<rparr>, w)
      else case dynamo_get e tallerId w of
        (Inl err, w1) \<Rightarrow> (case error500 ''Error al agregar slide'' w1 of (r, w2) \<Rightarrow> (Inl r, w2))
      | (Inr None, w1) \<Rightarrow> (Inl \<lparr>status = 404, body = ErrorBody ''Taller no encontrado''\<rparr>, w1)
      | (Inr (Some Item), w1) \<Rightarrow>
          (case subir_imagen e tallerId imagen w1 of
             (Inl err, w2) \<Rightarrow> (case error500 ''Error al agregar slide'' w2 of (r, w3) \<Rightarrow> (Inl r, w3))
           | (Inr url, w2) \<Rightarrow>
               (let nuevoSlide =
                      \<lparr>slide_id = uuidv4 e (if imagen = None then 0 else 1),
                       titulo = ''Paso '' @ show_nat (if js_truthy (Item ''slides'')
                                                     then js_length (Item ''slides'') + 1 else 1),
                       descripcion = the descripcion,
                       imagenUrl = url,
                       createdAt = toISOString e 0\<rparr>;
                    updateExpression =
                      (if js_truthy (Item ''slides'') \<and> js_length (Item ''slides'') > 0
                       then ListAppend else SetSlides)
                in (Inr \<lparr>up_Key = tallerId, up_UpdateExpression = updateExpression,
                         up_nuevoSlide = nuevoSlide, up_updatedAt = toISOString e 1\<rparr>, w2))))"

text \<open>The call of \<^verbatim>\<open>dynamoDB.update\<close> and the answer (lines 317 to 329).\<close>

definition agregar_slide_commit :: "env \<Rightarrow> world \<Rightarrow> update_params \<Rightarrow> response \<times> world" where
  "agregar_slide_commit e w p =
     (case dynamo_update e (up_Key p) (up_UpdateExpression p) [up_nuevoSlide p] (up_updatedAt p) w of
        (Inl err, w1) \<Rightarrow> error500 ''Error al agregar slide'' w1
      | (Inr Attributes, w1) \<Rightarrow>
          (\<lparr>status = 201, body = SlideBody (up_nuevoSlide p) Attributes\<rparr>, w1))"

text \<open>One request served with no other request in between.\<close>

definition agregar_slide :: "env \<Rightarrow> world \<Rightarrow> request \<Rightarrow> response \<times> world" where
  "agregar_slide e w req =
     (case agregar_slide_prepare e w req of
        (Inl r, w1) \<Rightarrow> (r, w1)
      | (Inr p, w1) \<Rightarrow> agregar_slide_commit e w1 p)"

text \<open>Requests served one after the other, each with its own environment.\<close>

fun agregar_slides :: "world \<Rightarrow> (env \<times> request) list \<Rightarrow> response list \<times> world" where
  "agregar_slides w [] = ([], w)"
| "agregar_slides w (er # ers) =
     (case agregar_slide (fst er) w (snd er) of
        (r, w1) \<Rightarrow> (case agregar_slides w1 ers of (rs, w2) \<Rightarrow> (r # rs, w2)))"

text \<open>
  Two requests in flight at once. Each \<^verbatim>\<open>await\<close> gives the other request the chance to run;
  in this schedule both requests have received the answer of \<^verbatim>\<open>dynamoDB.get\<close> before
  either sends its update.
\<close>

definition agregar_slide_interleaved ::
  "env \<Rightarrow> request \<Rightarrow> env \<Rightarrow> request \<Rightarrow> world \<Rightarrow> (response \<times> response) \<times> world" where
  "agregar_slide_interleaved eA reqA eB reqB w =
     (case agregar_slide_prepare eA w reqA of (a, w1) \<Rightarrow>
      case agregar_slide_prepare eB w1 reqB of (b, w2) \<Rightarrow>
      case (case a of Inl r \<Rightarrow> (r, w2) | Inr p \<Rightarrow> agregar_slide_commit eA w2 p) of (rA, w3) \<Rightarrow>
      case (case b of Inl r \<Rightarrow> (r, w3) | Inr p \<Rightarrow> agregar_slide_commit eB w3 p) of (rB, w4) \<Rightarrow>
        ((rA, rB), w4))"

section \<open>GET /talleres\<close>

definition ProjectionExpression :: "string list" where
  "ProjectionExpression =
     [''id'', ''nombre'', ''descripcion'', ''duracion'', ''nivelDificultad'', ''portadaUrl'',
      ''createdAt'']"

definition obtener_talleres :: "env \<Rightarrow> world \<Rightarrow> response \<times> world" where
  "obtener_talleres e w =
     (case dynamo_scan e ProjectionExpression w of
        (Inl err, w1) \<Rightarrow> error500 ''Error al obtener talleres'' w1
      | (Inr Items, w1) \<Rightarrow> (\<lparr>status = 200, body = ItemsBody Items\<rparr>, w1))"

section \<open>DELETE /talleres/:tallerId\<close>

definition truncated_warning :: string where
  "truncated_warning =
     ''El taller tiene m'' @ a_acute @ ''s de 1000 objetos, no todos fueron eliminados''"

text \<open>Lines 396 to 412: the bulk delete of the listed keys, skipped when there are none.\<close>

definition eliminar_objetos :: "env \<Rightarrow> string list \<times> bool \<Rightarrow> world \<Rightarrow> (error + unit) \<times> world" where
  "eliminar_objetos e listedObjects w =
     (case listedObjects of (Contents, IsTruncated) \<Rightarrow>
        if length Contents > 0
        then (case s3_deleteObjects e Contents w of
                (Inl err, w1) \<Rightarrow> (Inl err, w1)
              | (Inr u, w1) \<Rightarrow>
                  (Inr (), if IsTruncated
                           then w1\<lparr>console := console w1 @ [ConsoleWarn truncated_warning]\<rparr>
                           else w1))
        else (Inr (), w))"

definition eliminar_taller :: "env \<Rightarrow> world \<Rightarrow> request \<Rightarrow> response \<times> world" where
  "eliminar_taller e w req =
     (let tallerId = req_tallerId req
      in case dynamo_get e tallerId w of
        (Inl err, w1) \<Rightarrow> error500 ''Error al eliminar taller'' w1
      | (Inr None, w1) \<Rightarrow> (\<lparr>status = 404, body = ErrorBody ''Taller no encontrado''\<rparr>, w1)
      | (Inr (Some Item), w1) \<Rightarrow>
          (case s3_listObjectsV2 e (''talleres/'' @ tallerId @ ''/'') w1 of
             (Inl err, w2) \<Rightarrow> error500 ''Error al eliminar taller'' w2
           | (Inr listedObjects, w2) \<Rightarrow>
               (case eliminar_objetos e listedObjects w2 of
                  (Inl err, w3) \<Rightarrow> error500 ''Error al eliminar taller'' w3
                | (Inr u, w3) \<Rightarrow>
                    (case dynamo_delete e tallerId w3 of
                       (Inl err, w4) \<Rightarrow> error500 ''Error al eliminar taller'' w4
                     | (Inr u', w4) \<Rightarrow>
                         (\<lparr>status = 200, body = MessageBody ''Taller eliminado correctamente''\<rparr>,
                          w4)))))"

section \<open>Concrete requests\<close>

text \<open>An environment in which every call succeeds; \<open>u\<close> tells the identifiers of requests apart.\<close>

definition env_of :: "string \<Rightarrow> env" where
  "env_of u =
     \<lparr>uuidv4 = (\<lambda>k. if k = 0 then u @ ''-0'' else u @ ''-1''),
      toISOString = (\<lambda>k. if k = 0 then ''2024-01-01T00:00:00.000Z''
                          else ''2024-01-01T00:00:00.001Z''),
      extname = (\<lambda>n. ''.png''),
      readFileSync = [''uploads/f.png'' \<mapsto> ''PNG''],
      s3_location = (\<lambda>k. ''https://s3/'' @ k),
      fails = (\<lambda>c. False)\<rparr>"

definition world_empty :: world where
  "world_empty = \<lparr>table = [], bucket = [], calls = [], console = []\<rparr>"

definition imagen_png :: upload_file where
  "imagen_png = \<lparr>originalname = ''robot.png'', path = ''uploads/f.png'', mimetype = ''image/png''\<rparr>"

definition req_crear :: request where
  "req_crear =
     \<lparr>req_tallerId = [],
      req_body = [''nombre'' \<mapsto> ''Robot'', ''descripcion'' \<mapsto> ''Un robot''],
      req_file = Some imagen_png\<rparr>"

definition req_slide :: "string \<Rightarrow> string \<Rightarrow> upload_file option \<Rightarrow> request" where
  "req_slide tid d f = \<lparr>req_tallerId = tid, req_body = [''descripcion'' \<mapsto> d], req_file = f\<rparr>"

text \<open>The world after one taller has been created in the empty world; its id is \<open>t-0\<close>.\<close>

definition world_creado :: world where
  "world_creado = snd (crear_taller (env_of ''t'') world_empty req_crear)"

section \<open>Reading the slides of an item\<close>

text \<open>
  The slides of an item, and what the data model says of the attribute: it is a list when
  it is there at all.
\<close>

definition slides_of :: "item \<Rightarrow> slide list" where
  "slides_of it = (case it ''slides'' of Some (Slides xs) \<Rightarrow> xs | _ \<Rightarrow> [])"

definition slides_is_list :: "item \<Rightarrow> bool" where
  "slides_is_list it = (case it ''slides'' of Some (Str s) \<Rightarrow> False | _ \<Rightarrow> True)"

text \<open>The same world with \<open>n\<close> objects under the folder of the taller \<open>t-0\<close>.\<close>

definition world_con_objetos :: "nat \<Rightarrow> world" where
  "world_con_objetos n =
     world_creado\<lparr>bucket := map (\<lambda>k. (''talleres/t-0/'' @ show_nat k, ''PNG'', ''image/png''))
                                [0..<n]\<rparr>"

text \<open>A table whose only item has no \<^verbatim>\<open>slides\<close> attribute.\<close>

definition world_sin_slides :: world where
  "world_sin_slides =
     \<lparr>table = [(''t-9'', [''id'' \<mapsto> Str ''t-9''])], bucket = [], calls = [], console = []\<rparr>"

text \<open>Three requests for the taller \<open>t-0\<close>, the second with an image.\<close>

definition tres_peticiones :: "(env \<times> request) list" where
  "tres_peticiones =
     [(env_of ''a'', req_slide ''t-0'' ''uno'' None),
      (env_of ''b'', req_slide ''t-0'' ''dos'' (Some imagen_png)),
      (env_of ''c'', req_slide ''t-0'' ''tres'' None)]"

text \<open>Two requests for the taller \<open>t-0\<close>, just created, in flight at once.\<close>

definition dos_a_la_vez :: "(response \<times> response) \<times> world" where
  "dos_a_la_vez =
     agregar_slide_interleaved (env_of ''a'') (req_slide ''t-0'' ''uno'' None)
       (env_of ''b'') (req_slide ''t-0'' ''dos'' None) world_creado"

text \<open>
  A description of 400000 bytes, and the world after four talleres with that description
  have been created; their ids are \<open>p-0\<close>, \<open>q-0\<close>, \<open>r-0\<close> and \<open>s-0\<close>.
\<close>

definition descripcion_larga :: string where
  "descripcion_larga = replicate 400000 (CHR ''a'')"

definition req_crear_largo :: request where
  "req_crear_largo =
     \<lparr>req_tallerId = [],
      req_body = [''nombre'' \<mapsto> ''Robot'', ''descripcion'' \<mapsto> descripcion_larga],
      req_file = Some imagen_png\<rparr>"

definition world_cuatro :: world where
  "world_cuatro =
     snd (crear_taller (env_of ''s'')
       (snd (crear_taller (env_of ''r'')
         (snd (crear_taller (env_of ''q'')
           (snd (crear_taller (env_of ''p'') world_empty req_crear_largo))
           req_crear_largo))
         req_crear_largo))
       req_crear_largo)"

text \<open>The \<^verbatim>\<open>id\<close> of each element of a list answered by a handler.\<close>

definition ids_of :: "json \<Rightarrow> attr option list" where
  "ids_of b = (case b of ItemsBody xs \<Rightarrow> map (\<lambda>x. x ''id'') xs | _ \<Rightarrow> [])"

section \<open>Requests that meet no failure\<close>

text \<open>The key under which the image of a slide is uploaded (line 270).\<close>

definition imagen_key :: "env \<Rightarrow> string \<Rightarrow> upload_file \<Rightarrow> string" where
  "imagen_key e tallerId f =
     ''talleres/'' @ tallerId @ ''/'' @ ''slide-'' @ uuidv4 e 0 @ extname e (originalname f)"

text \<open>
  The request has a description, its image (if any) can be read and uploaded, and the get
  and the update of its taller are answered.
\<close>

definition sin_fallos :: "env \<Rightarrow> request \<Rightarrow> bool" where
  "sin_fallos e req =
     (truthy (req_body req ''descripcion'') \<and>
      \<not> fails e (DbGet (req_tallerId req)) \<and>
      \<not> fails e (DbUpdate (req_tallerId req)) \<and>
      (case req_file req of
         None \<Rightarrow> True
       | Some f \<Rightarrow> readFileSync e (path f) \<noteq> None \<and>
                   \<not> fails e (S3Upload (imagen_key e (req_tallerId req) f))))"

section \<open>Unfolding the handlers\<close>

lemmas aws_defs = s3_upload_def dynamo_get_def dynamo_put_def dynamo_update_def dynamo_delete_def
  dynamo_scan_def s3_listObjectsV2_def s3_deleteObjects_def called_def error500_def

lemmas js_defs = truthy_def or_null_def or_default_def js_truthy_def js_length_def

lemmas fixture_defs = env_of_def world_empty_def imagen_png_def req_crear_def req_slide_def

lemma world_creado_eq:
  "world_creado =
     \<lparr>table = [(''t-0'', map_of
        [(''id'', Str ''t-0''), (''nombre'', Str ''Robot''), (''descripcion'', Str ''Un robot''),
         (''duracion'', Null), (''nivelDificultad'', Str FACIL), (''materiales'', Null),
         (''objetivos'', Null), (''finalidades'', Null), (''ciencia'', Null),
         (''tecnologia'', Null), (''ingenieria'', Null), (''matematicas'', Null),
         (''portadaUrl'', Str ''https://s3/talleres/t-0/portada-t-1.png''),
         (''carpetaS3'', Str ''talleres/t-0/''),
         (''createdAt'', Str ''2024-01-01T00:00:00.000Z''),
         (''slides'', Slides [])])],
      bucket = [(''talleres/t-0/portada-t-1.png'', ''PNG'', ''image/png'')],
      calls = [S3Upload ''talleres/t-0/portada-t-1.png'', DbPut ''t-0''],
      console = []\<rparr>"
  by (simp add: world_creado_def crear_taller_def Let_def aws_defs js_defs fixture_defs)

section \<open>POST /talleres: validation\<close>

text \<open>
  C5. A request to create a taller that lacks the name, the description or the cover file
  is answered with 400, and the world is left as it was: no call reaches S3 or DynamoDB,
  and no item is written. (A field that is the empty string counts as lacking.)
\<close>

theorem crear_taller_missing_input:
  assumes "\<not> truthy (req_body req ''nombre'') \<or> \<not> truthy (req_body req ''descripcion'')
           \<or> req_file req = None"
  shows "status (fst (crear_taller e w req)) = 400 \<and> snd (crear_taller e w req) = w"
  using assms by (auto simp: crear_taller_def Let_def)

theorem crear_taller_missing_input_witness:
  "(req_file (req_crear\<lparr>req_file := None\<rparr>) = None \<and>
    status (fst (crear_taller (env_of ''x'') world_creado (req_crear\<lparr>req_file := None\<rparr>))) = 400 \<and>
    snd (crear_taller (env_of ''x'') world_creado (req_crear\<lparr>req_file := None\<rparr>)) = world_creado) \<and>
   (\<not> truthy (req_body (req_slide [] ''Un robot'' (Some imagen_png)) ''nombre'') \<and>
    status (fst (crear_taller (env_of ''x'') world_creado (req_slide [] ''Un robot'' (Some imagen_png)))) = 400 \<and>
    snd (crear_taller (env_of ''x'') world_creado (req_slide [] ''Un robot'' (Some imagen_png))) = world_creado) \<and>
   (\<not> truthy (req_body (req_crear\<lparr>req_body := [''nombre'' \<mapsto> ''Robot'']\<rparr>) ''descripcion'') \<and>
    status (fst (crear_taller (env_of ''x'') world_creado
                   (req_crear\<lparr>req_body := [''nombre'' \<mapsto> ''Robot'']\<rparr>))) = 400 \<and>
    snd (crear_taller (env_of ''x'') world_creado
           (req_crear\<lparr>req_body := [''nombre'' \<mapsto> ''Robot'']\<rparr>)) = world_creado)"
  using crear_taller_missing_input [of "req_crear\<lparr>req_file := None\<rparr>" "env_of ''x''" world_creado]
    crear_taller_missing_input [of "req_slide [] ''Un robot'' (Some imagen_png)" "env_of ''x''" world_creado]
    crear_taller_missing_input [of "req_crear\<lparr>req_body := [''nombre'' \<mapsto> ''Robot'']\<rparr>"
      "env_of ''x''" world_creado]
  by (simp add: req_slide_def truthy_def)

section \<open>POST /talleres: the default level\<close>

text \<open>
  C9, as the code has it. When the request carries no \<^verbatim>\<open>nivelDificultad\<close> and the taller is
  created, the stored item has \<^verbatim>\<open>nivelDificultad\<close> equal to the default of the source,
  the Spanish word \<^const>\<open>FACIL\<close>.
\<close>

theorem crear_taller_nivelDificultad_default:
  assumes "req_body req ''nivelDificultad'' = None"
    and "crear_taller e w req = (r, w')"
    and "status r = 201"
  shows "\<exists>Item. map_of (table w') (uuidv4 e 0) = Some Item \<and>
           Item ''nivelDificultad'' = Some (Str FACIL)"
  using assms
  by (auto simp: crear_taller_def Let_def aws_defs or_default_def update_conv'
      split: option.splits if_splits)

theorem crear_taller_nivelDificultad_default_witness:
  "req_body req_crear ''nivelDificultad'' = None \<and>
   status (fst (crear_taller (env_of ''t'') world_empty req_crear)) = 201 \<and>
   (\<exists>Item. map_of (table (snd (crear_taller (env_of ''t'') world_empty req_crear)))
              (uuidv4 (env_of ''t'') 0) = Some Item \<and>
           Item ''nivelDificultad'' = Some (Str FACIL))"
proof -
  have a: "req_body req_crear ''nivelDificultad'' = None"
    by (simp add: req_crear_def)
  have b: "status (fst (crear_taller (env_of ''t'') world_empty req_crear)) = 201"
    by (simp add: crear_taller_def Let_def aws_defs js_defs fixture_defs)
  show ?thesis
    using a b crear_taller_nivelDificultad_default [OF a _ b, where e = "env_of ''t''" and w = world_empty
        and w' = "snd (crear_taller (env_of ''t'') world_empty req_crear)"]
    by simp
qed

text \<open>
  The stored default is not the string \<open>EASY\<close>: for the request \<^const>\<open>req_crear\<close>, which has no
  \<^verbatim>\<open>nivelDificultad\<close>, the taller is created with the level \<^const>\<open>FACIL\<close>.
\<close>

theorem crear_taller_nivelDificultad_counterexample:
  "req_body req_crear ''nivelDificultad'' = None \<and>
   status (fst (crear_taller (env_of ''t'') world_empty req_crear)) = 201 \<and>
   map fst (table (snd (crear_taller (env_of ''t'') world_empty req_crear))) = [''t-0''] \<and>
   snd (hd (table (snd (crear_taller (env_of ''t'') world_empty req_crear)))) ''nivelDificultad''
     = Some (Str FACIL) \<and>
   FACIL \<noteq> ''EASY''"
  by (simp add: crear_taller_def Let_def aws_defs js_defs fixture_defs FACIL_def)

section \<open>POST /talleres/:tallerId/slides: validation\<close>

text \<open>
  C10. A request to add a slide that has no description is answered with 400 and leaves the
  world as it was, whatever the table holds: the check comes before \<^verbatim>\<open>dynamoDB.get\<close>, so
  the answer is 400 and not 404 also for an id that is not in the table, and no call is
  made to either store.
\<close>

theorem agregar_slide_sin_descripcion:
  assumes "\<not> truthy (req_body req ''descripcion'')"
  shows "status (fst (agregar_slide e w req)) = 400 \<and> snd (agregar_slide e w req) = w"
  using assms by (simp add: agregar_slide_def agregar_slide_prepare_def Let_def)

theorem agregar_slide_sin_descripcion_witness:
  "\<not> truthy (req_body (req_slide ''no-such-id'' [] (Some imagen_png)) ''descripcion'') \<and>
   map_of (table world_creado) ''no-such-id'' = None \<and>
   status (fst (agregar_slide (env_of ''x'') world_creado (req_slide ''no-such-id'' [] (Some imagen_png)))) = 400 \<and>
   snd (agregar_slide (env_of ''x'') world_creado (req_slide ''no-such-id'' [] (Some imagen_png))) = world_creado"
  using agregar_slide_sin_descripcion
    [of "req_slide ''no-such-id'' [] (Some imagen_png)" "env_of ''x''" world_creado]
  by (simp add: req_slide_def truthy_def world_creado_eq)

section \<open>GET /talleres: the projection\<close>

lemma scan_page_all:
  "sum_list (map (item_size \<circ> snd) t) \<le> budget \<Longrightarrow> scan_page budget t = t"
  by (induction t arbitrary: budget) auto

lemma scan_page_prefix: "prefix (scan_page budget t) t"
  by (induction t arbitrary: budget) auto

lemma scan_page_size: "sum_list (map (item_size \<circ> snd) (scan_page budget t)) \<le> budget"
proof (induction t arbitrary: budget)
  case Nil
  show ?case by simp
next
  case (Cons kv kvs)
  show ?case
  proof (cases "item_size (snd kv) \<le> budget")
    case True
    with Cons [of "budget - item_size (snd kv)"] show ?thesis by simp
  next
    case False
    then show ?thesis by simp
  qed
qed

text \<open>
  C8, as the code has it. The handler makes one scan and never asks for a further page.
  When the scan succeeds the answer is 200 with the items of the first page of the table,
  each cut down to the attributes named in the projection expression; the page is a front
  part of the table of at most 1 MB, and it is the whole table when the items of the table
  add up to at most 1 MB. No element of any list that the handler returns has the attribute
  \<^verbatim>\<open>slides\<close>, and the handler changes neither store.
\<close>

theorem obtener_talleres_projection:
  "(\<not> fails e DbScan \<longrightarrow>
      fst (obtener_talleres e w) =
        \<lparr>status = 200,
         body = ItemsBody (map (\<lambda>kv. snd kv |` set ProjectionExpression)
                            (scan_page scan_limit (table w)))\<rparr> \<and>
      prefix (scan_page scan_limit (table w)) (table w) \<and>
      sum_list (map (item_size \<circ> snd) (scan_page scan_limit (table w))) \<le> scan_limit) \<and>
   (\<not> fails e DbScan \<and> sum_list (map (item_size \<circ> snd) (table w)) \<le> scan_limit \<longrightarrow>
      fst (obtener_talleres e w) =
        \<lparr>status = 200,
         body = ItemsBody (map (\<lambda>kv. snd kv |` set ProjectionExpression) (table w))\<rparr>) \<and>
   (\<forall>xs. body (fst (obtener_talleres e w)) = ItemsBody xs \<longrightarrow>
      (\<forall>x \<in> set xs. x ''slides'' = None \<and> dom x \<subseteq> set ProjectionExpression)) \<and>
   table (snd (obtener_talleres e w)) = table w \<and> bucket (snd (obtener_talleres e w)) = bucket w"
proof -
  have ok: "\<not> fails e DbScan \<Longrightarrow> fst (obtener_talleres e w) =
        \<lparr>status = 200,
         body = ItemsBody (map (\<lambda>kv. snd kv |` set ProjectionExpression)
                            (scan_page scan_limit (table w)))\<rparr>"
    by (simp add: obtener_talleres_def dynamo_scan_def)
  have noslides: "x ''slides'' = None \<and> dom x \<subseteq> set ProjectionExpression"
    if "body (fst (obtener_talleres e w)) = ItemsBody xs" and "x \<in> set xs" for xs x
    using that
    by (cases "fails e DbScan")
       (auto simp: obtener_talleres_def dynamo_scan_def error500_def ProjectionExpression_def
          restrict_map_def split: if_splits)
  have frame: "table (snd (obtener_talleres e w)) = table w \<and>
      bucket (snd (obtener_talleres e w)) = bucket w"
    by (simp add: obtener_talleres_def dynamo_scan_def called_def error500_def)
  show ?thesis
    using ok noslides frame scan_page_prefix [of scan_limit "table w"]
      scan_page_size [of scan_limit "table w"] scan_page_all [of "table w" scan_limit]
    by auto
qed

lemma item_size_world_creado:
  "map (item_size \<circ> snd) (table world_creado) = [253]"
  by (simp add: world_creado_eq item_size_def attribute_names_def attr_size_def FACIL_def)

theorem obtener_talleres_projection_witness:
  "\<not> fails (env_of ''x'') DbScan \<and>
   sum_list (map (item_size \<circ> snd) (table world_creado)) \<le> scan_limit \<and>
   map (\<lambda>kv. snd kv ''slides'') (table world_creado) = [Some (Slides [])] \<and>
   (\<exists>x. body (fst (obtener_talleres (env_of ''x'') world_creado)) = ItemsBody [x] \<and>
        x ''slides'' = None \<and> x ''nombre'' = Some (Str ''Robot''))"
proof -
  have a: "\<not> fails (env_of ''x'') DbScan"
    by (simp add: env_of_def)
  have b: "sum_list (map (item_size \<circ> snd) (table world_creado)) \<le> scan_limit"
    by (simp add: item_size_world_creado scan_limit_def)
  show ?thesis
    using a b obtener_talleres_projection [of "env_of ''x''" world_creado]
    by (simp add: world_creado_eq ProjectionExpression_def)
qed

lemma descripcion_larga_length: "length descripcion_larga = 400000"
  and descripcion_larga_nonempty: "descripcion_larga \<noteq> []"
  by (auto simp: descripcion_larga_def)

lemma item_largo:
  "item_size (map_of
        [(''id'', Str (u @ ''-0'')), (''nombre'', Str ''Robot''),
         (''descripcion'', Str descripcion_larga),
         (''duracion'', Null), (''nivelDificultad'', Str FACIL), (''materiales'', Null),
         (''objetivos'', Null), (''finalidades'', Null), (''ciencia'', Null),
         (''tecnologia'', Null), (''ingenieria'', Null), (''matematicas'', Null),
         (''portadaUrl'', Str (''https://s3/talleres/'' @ u @ ''-0/portada-'' @ u @ ''-1.png'')),
         (''carpetaS3'', Str (''talleres/'' @ u @ ''-0/'')),
         (''createdAt'', Str ''2024-01-01T00:00:00.000Z''),
         (''slides'', Slides [])]) = 400241 + 4 * length u"
  by (simp add: item_size_def attribute_names_def attr_size_def FACIL_def descripcion_larga_length)

text \<open>
  The handler does not return every record of every table. After four talleres with a
  description of 400000 bytes have been created, each item takes 400245 bytes; the scan
  answers with the first page, and the handler returns 200 with the first two talleres only.
\<close>

theorem obtener_talleres_projection_counterexample:
  "\<not> fails (env_of ''x'') DbScan \<and>
   status (fst (obtener_talleres (env_of ''x'') world_cuatro)) = 200 \<and>
   map fst (table world_cuatro) = [''p-0'', ''q-0'', ''r-0'', ''s-0''] \<and>
   map (item_size \<circ> snd) (table world_cuatro) = [400245, 400245, 400245, 400245] \<and>
   ids_of (body (fst (obtener_talleres (env_of ''x'') world_cuatro)))
     = [Some (Str ''p-0''), Some (Str ''q-0'')]"
  by (simp add: obtener_talleres_def scan_limit_def ids_of_def ProjectionExpression_def
      world_cuatro_def crear_taller_def Let_def aws_defs js_defs env_of_def
      world_empty_def imagen_png_def req_crear_largo_def descripcion_larga_nonempty
      item_largo [of "''p''", simplified] item_largo [of "''q''", simplified]
      item_largo [of "''r''", simplified] item_largo [of "''s''", simplified])

section \<open>POST /talleres/:tallerId/slides: an id that is not in the table\<close>

text \<open>
  C6. When the id of the request is not in the table, adding a slide changes neither the
  bucket nor the table, and the only call it can make is the \<^verbatim>\<open>dynamoDB.get\<close> of that id: no
  image is uploaded. When the request has a description and the get is answered, the
  response is 404.
\<close>

theorem agregar_slide_taller_inexistente:
  assumes "map_of (table w) (req_tallerId req) = None"
    and "agregar_slide e w req = (r, w')"
  shows "bucket w' = bucket w \<and> table w' = table w \<and>
         (calls w' = calls w \<or> calls w' = calls w @ [DbGet (req_tallerId req)]) \<and>
         (truthy (req_body req ''descripcion'') \<and> \<not> fails e (DbGet (req_tallerId req)) \<longrightarrow>
            r = \<lparr>status = 404, body = ErrorBody ''Taller no encontrado''\<rparr> \<and>
            calls w' = calls w @ [DbGet (req_tallerId req)])"
  using assms
  by (auto simp: agregar_slide_def agregar_slide_prepare_def Let_def dynamo_get_def called_def
      error500_def split: if_splits)

theorem agregar_slide_taller_inexistente_witness:
  "map_of (table world_creado) (req_tallerId (req_slide ''no-such-id'' ''uno'' (Some imagen_png))) = None \<and>
   truthy (req_body (req_slide ''no-such-id'' ''uno'' (Some imagen_png)) ''descripcion'') \<and>
   \<not> fails (env_of ''x'') (DbGet ''no-such-id'') \<and>
   fst (agregar_slide (env_of ''x'') world_creado (req_slide ''no-such-id'' ''uno'' (Some imagen_png)))
     = \<lparr>status = 404, body = ErrorBody ''Taller no encontrado''\<rparr> \<and>
   bucket (snd (agregar_slide (env_of ''x'') world_creado (req_slide ''no-such-id'' ''uno'' (Some imagen_png))))
     = bucket world_creado \<and>
   calls (snd (agregar_slide (env_of ''x'') world_creado (req_slide ''no-such-id'' ''uno'' (Some imagen_png))))
     = calls world_creado @ [DbGet ''no-such-id'']"
proof -
  have a: "map_of (table world_creado) (req_tallerId (req_slide ''no-such-id'' ''uno'' (Some imagen_png))) = None"
    by (simp add: world_creado_eq req_slide_def)
  show ?thesis
    using a agregar_slide_taller_inexistente [OF a, where e = "env_of ''x''"
        and r = "fst (agregar_slide (env_of ''x'') world_creado (req_slide ''no-such-id'' ''uno'' (Some imagen_png)))"
        and w' = "snd (agregar_slide (env_of ''x'') world_creado (req_slide ''no-such-id'' ''uno'' (Some imagen_png)))"]
    by (simp add: req_slide_def truthy_def env_of_def)
qed

section \<open>POST /talleres: the cover before the item\<close>

text \<open>
  C4. For a request that passes validation, the cover is uploaded before the item is put.
  When the temporary file cannot be read or the upload is rejected, the answer is 500,
  the table and the bucket are as before, and \<^verbatim>\<open>dynamoDB.put\<close> is not called. The table
  changes only when the answer is 201, and then the calls made are the upload followed by
  the put, the bucket holds the cover under the uploaded key, and the stored item's
  \<^verbatim>\<open>portadaUrl\<close> is the location of that key.
\<close>

theorem crear_taller_portada_primero:
  fixes e :: env and portada :: upload_file
  defines "Key \<equiv> ''talleres/'' @ uuidv4 e 0 @ ''/'' @ ''portada-'' @ uuidv4 e 1
                    @ extname e (originalname portada)"
  assumes "truthy (req_body req ''nombre'')" and "truthy (req_body req ''descripcion'')"
    and "req_file req = Some portada"
    and "crear_taller e w req = (r, w')"
  shows "(readFileSync e (path portada) = None \<or> fails e (S3Upload Key) \<longrightarrow>
            status r = 500 \<and> table w' = table w \<and> bucket w' = bucket w \<and>
            (calls w' = calls w \<or> calls w' = calls w @ [S3Upload Key])) \<and>
         (table w' \<noteq> table w \<longrightarrow> status r = 201) \<and>
         (status r = 201 \<longrightarrow>
            calls w' = calls w @ [S3Upload Key, DbPut (uuidv4 e 0)] \<and>
            (\<exists>content. readFileSync e (path portada) = Some content \<and>
               map_of (bucket w') Key = Some (content, mimetype portada)) \<and>
            (\<exists>Item. map_of (table w') (uuidv4 e 0) = Some Item \<and>
               Item ''portadaUrl'' = Some (Str (s3_location e Key))))"
  using assms
  by (auto simp: crear_taller_def Let_def aws_defs update_conv'
      split: option.splits if_splits)

theorem crear_taller_portada_primero_witness:
  "truthy (req_body req_crear ''nombre'') \<and> truthy (req_body req_crear ''descripcion'') \<and>
   req_file req_crear = Some imagen_png \<and>
   fails ((env_of ''t'')\<lparr>fails := (\<lambda>c. c = S3Upload ''talleres/t-0/portada-t-1.png'')\<rparr>)
     (S3Upload ''talleres/t-0/portada-t-1.png'') \<and>
   status (fst (crear_taller ((env_of ''t'')\<lparr>fails := (\<lambda>c. c = S3Upload ''talleres/t-0/portada-t-1.png'')\<rparr>)
                  world_empty req_crear)) = 500 \<and>
   table (snd (crear_taller ((env_of ''t'')\<lparr>fails := (\<lambda>c. c = S3Upload ''talleres/t-0/portada-t-1.png'')\<rparr>)
                  world_empty req_crear)) = [] \<and>
   status (fst (crear_taller (env_of ''t'') world_empty req_crear)) = 201 \<and>
   calls (snd (crear_taller (env_of ''t'') world_empty req_crear))
     = [S3Upload ''talleres/t-0/portada-t-1.png'', DbPut ''t-0'']"
proof -
  let ?down = "(env_of ''t'')\<lparr>fails := (\<lambda>c. c = S3Upload ''talleres/t-0/portada-t-1.png'')\<rparr>"
  have a: "truthy (req_body req_crear ''nombre'')" and b: "truthy (req_body req_crear ''descripcion'')"
    and c: "req_file req_crear = Some imagen_png"
    by (simp_all add: req_crear_def truthy_def)
  have ok: "status (fst (crear_taller (env_of ''t'') world_empty req_crear)) = 201"
    by (simp add: crear_taller_def Let_def aws_defs js_defs fixture_defs)
  show ?thesis
    using a b c ok
      crear_taller_portada_primero [OF a b c, where e = ?down and w = world_empty
        and r = "fst (crear_taller ?down world_empty req_crear)"
        and w' = "snd (crear_taller ?down world_empty req_crear)"]
      crear_taller_portada_primero [OF a b c, where e = "env_of ''t''" and w = world_empty
        and r = "fst (crear_taller (env_of ''t'') world_empty req_crear)"
        and w' = "snd (crear_taller (env_of ''t'') world_empty req_crear)"]
    by (simp add: env_of_def imagen_png_def world_empty_def)
qed

section \<open>DELETE /talleres/:tallerId: the objects before the item\<close>

lemma eliminar_objetos_result:
  "eliminar_objetos e (ks, tr) w =
     (if ks = [] then (Inr (), w)
      else if fails e (S3DeleteObjects ks)
      then (Inl (AwsError (S3DeleteObjects ks)), w\<lparr>calls := calls w @ [S3DeleteObjects ks]\<rparr>)
      else (Inr (), w\<lparr>calls := calls w @ [S3DeleteObjects ks],
                        bucket := filter (\<lambda>kv. fst kv \<notin> set ks) (bucket w),
                        console := console w @ (if tr then [ConsoleWarn truncated_warning] else [])\<rparr>))"
  by (simp add: eliminar_objetos_def s3_deleteObjects_def called_def)

lemma eliminar_taller_found:
  assumes "map_of (table w) (req_tallerId req) = Some Item"
    and "\<not> fails e (DbGet (req_tallerId req))"
  shows "eliminar_taller e w req =
     (case s3_listObjectsV2 e (''talleres/'' @ req_tallerId req @ ''/'')
             (called (DbGet (req_tallerId req)) w) of
        (Inl err, w2) \<Rightarrow> error500 ''Error al eliminar taller'' w2
      | (Inr listedObjects, w2) \<Rightarrow>
          (case eliminar_objetos e listedObjects w2 of
             (Inl err, w3) \<Rightarrow> error500 ''Error al eliminar taller'' w3
           | (Inr u, w3) \<Rightarrow>
               (case dynamo_delete e (req_tallerId req) w3 of
                  (Inl err, w4) \<Rightarrow> error500 ''Error al eliminar taller'' w4
                | (Inr u', w4) \<Rightarrow>
                    (\<lparr>status = 200, body = MessageBody ''Taller eliminado correctamente''\<rparr>,
                     w4))))"
  using assms by (simp add: eliminar_taller_def dynamo_get_def Let_def)

lemma world_con_objetos_table: "table (world_con_objetos n) = table world_creado"
  and world_con_objetos_console: "console (world_con_objetos n) = []"
  and world_con_objetos_listed:
    "filter (prefix ''talleres/t-0/'') (map fst (bucket (world_con_objetos n)))
       = map (\<lambda>k. ''talleres/t-0/'' @ show_nat k) [0..<n]"
  by (simp_all add: world_con_objetos_def world_creado_eq comp_def)

text \<open>
  C7. Deleting a taller that is in the table (with the first \<^verbatim>\<open>dynamoDB.get\<close> answered):
  the keys under its folder are listed, the listed keys (at most 1000) are deleted from the
  bucket, and only then is the item deleted. When the listing or the bulk delete is
  rejected the answer is 500, table and bucket are as before and \<^verbatim>\<open>dynamoDB.delete\<close> is not
  called. Otherwise the bucket has lost the listed keys before the item is deleted; when
  that last call succeeds the answer is 200, and a truncated listing adds nothing but a
  warning on the console.
\<close>

theorem eliminar_taller_blobs_primero:
  fixes e :: env and w :: world and tid :: string
  defines "Prefix \<equiv> ''talleres/'' @ tid @ ''/''"
  defines "listed \<equiv> filter (prefix Prefix) (map fst (bucket w))"
  defines "Contents \<equiv> take 1000 listed"
  assumes "req_tallerId req = tid"
    and "map_of (table w) tid = Some Item"
    and "\<not> fails e (DbGet tid)"
    and "eliminar_taller e w req = (r, w')"
  shows "(fails e (S3ListObjectsV2 Prefix) \<or> (Contents \<noteq> [] \<and> fails e (S3DeleteObjects Contents)) \<longrightarrow>
            status r = 500 \<and> table w' = table w \<and> bucket w' = bucket w \<and>
            DbDelete tid \<notin> set (drop (length (calls w)) (calls w'))) \<and>
         (\<not> fails e (S3ListObjectsV2 Prefix) \<and> \<not> (Contents \<noteq> [] \<and> fails e (S3DeleteObjects Contents)) \<longrightarrow>
            bucket w' = filter (\<lambda>kv. fst kv \<notin> set Contents) (bucket w) \<and>
            calls w' = calls w @ [DbGet tid, S3ListObjectsV2 Prefix]
                         @ (if Contents = [] then [] else [S3DeleteObjects Contents])
                         @ [DbDelete tid] \<and>
            (fails e (DbDelete tid) \<longrightarrow> status r = 500 \<and> table w' = table w) \<and>
            (\<not> fails e (DbDelete tid) \<longrightarrow>
               r = \<lparr>status = 200, body = MessageBody ''Taller eliminado correctamente''\<rparr> \<and>
               table w' = AList.delete tid (table w) \<and>
               console w' = console w @ (if 1000 < length listed
                                          then [ConsoleWarn truncated_warning] else [])))"
proof -
  have tr: "1000 < length listed \<Longrightarrow> Contents \<noteq> []"
    by (auto simp: Contents_def)
  have run: "(r, w') =
     (case s3_listObjectsV2 e Prefix (called (DbGet tid) w) of
        (Inl err, w2) \<Rightarrow> error500 ''Error al eliminar taller'' w2
      | (Inr listedObjects, w2) \<Rightarrow>
          (case eliminar_objetos e listedObjects w2 of
             (Inl err, w3) \<Rightarrow> error500 ''Error al eliminar taller'' w3
           | (Inr u, w3) \<Rightarrow>
               (case dynamo_delete e tid w3 of
                  (Inl err, w4) \<Rightarrow> error500 ''Error al eliminar taller'' w4
                | (Inr u', w4) \<Rightarrow>
                    (\<lparr>status = 200, body = MessageBody ''Taller eliminado correctamente''\<rparr>,
                     w4))))"
    using assms(5-7) eliminar_taller_found [of w req Item e] unfolding assms(4) Prefix_def by simp
  have lst: "\<not> fails e (S3ListObjectsV2 Prefix) \<Longrightarrow>
      s3_listObjectsV2 e Prefix (w\<lparr>calls := calls w @ [DbGet tid]\<rparr>) =
        (Inr (Contents, 1000 < length listed),
         w\<lparr>calls := calls w @ [DbGet tid, S3ListObjectsV2 Prefix]\<rparr>)"
    by (simp add: s3_listObjectsV2_def called_def Contents_def listed_def Let_def
        del: length_filter_map)
  have lstf: "fails e (S3ListObjectsV2 Prefix) \<Longrightarrow>
      s3_listObjectsV2 e Prefix (w\<lparr>calls := calls w @ [DbGet tid]\<rparr>) =
        (Inl (AwsError (S3ListObjectsV2 Prefix)),
         w\<lparr>calls := calls w @ [DbGet tid, S3ListObjectsV2 Prefix]\<rparr>)"
    by (simp add: s3_listObjectsV2_def called_def)
  show ?thesis
  proof (cases "fails e (S3ListObjectsV2 Prefix)")
    case True
    then show ?thesis using run by (simp add: called_def lstf error500_def)
  next
    case nolist: False
    show ?thesis
    proof (cases "Contents = []")
      case True
      then have "\<not> 1000 < length listed" using tr by blast
      then show ?thesis using run nolist True
        by (cases "fails e (DbDelete tid)")
           (simp_all add: lst eliminar_objetos_result dynamo_delete_def called_def error500_def)
    next
      case False
      then show ?thesis using run nolist
        by (cases "fails e (DbDelete tid)"; cases "fails e (S3DeleteObjects Contents)")
           (simp_all add: lst eliminar_objetos_result dynamo_delete_def called_def error500_def)
    qed
  qed
qed

theorem eliminar_taller_blobs_primero_witness:
  "(fails ((env_of ''x'')\<lparr>fails := (\<lambda>c. c = S3ListObjectsV2 ''talleres/t-0/'')\<rparr>)
      (S3ListObjectsV2 ''talleres/t-0/'') \<and>
    status (fst (eliminar_taller ((env_of ''x'')\<lparr>fails := (\<lambda>c. c = S3ListObjectsV2 ''talleres/t-0/'')\<rparr>)
                   world_creado (req_slide ''t-0'' [] None))) = 500 \<and>
    table (snd (eliminar_taller ((env_of ''x'')\<lparr>fails := (\<lambda>c. c = S3ListObjectsV2 ''talleres/t-0/'')\<rparr>)
                   world_creado (req_slide ''t-0'' [] None))) = table world_creado \<and>
    bucket (snd (eliminar_taller ((env_of ''x'')\<lparr>fails := (\<lambda>c. c = S3ListObjectsV2 ''talleres/t-0/'')\<rparr>)
                   world_creado (req_slide ''t-0'' [] None))) = bucket world_creado) \<and>
   (status (fst (eliminar_taller (env_of ''x'') world_creado (req_slide ''t-0'' [] None))) = 200 \<and>
    table (snd (eliminar_taller (env_of ''x'') world_creado (req_slide ''t-0'' [] None))) = [] \<and>
    bucket (snd (eliminar_taller (env_of ''x'') world_creado (req_slide ''t-0'' [] None))) = [] \<and>
    calls (snd (eliminar_taller (env_of ''x'') world_creado (req_slide ''t-0'' [] None)))
      = calls world_creado @ [DbGet ''t-0'', S3ListObjectsV2 ''talleres/t-0/'',
          S3DeleteObjects [''talleres/t-0/portada-t-1.png''], DbDelete ''t-0'']) \<and>
   (1000 < length (filter (prefix ''talleres/t-0/'') (map fst (bucket (world_con_objetos 1001)))) \<and>
    status (fst (eliminar_taller (env_of ''x'') (world_con_objetos 1001) (req_slide ''t-0'' [] None))) = 200 \<and>
    table (snd (eliminar_taller (env_of ''x'') (world_con_objetos 1001) (req_slide ''t-0'' [] None))) = [] \<and>
    console (snd (eliminar_taller (env_of ''x'') (world_con_objetos 1001) (req_slide ''t-0'' [] None)))
      = [ConsoleWarn truncated_warning])"
proof -
  let ?req = "req_slide ''t-0'' [] None"
  let ?down = "(env_of ''x'')\<lparr>fails := (\<lambda>c. c = S3ListObjectsV2 ''talleres/t-0/'')\<rparr>"
  obtain Item where it: "map_of (table world_creado) ''t-0'' = Some Item"
    by (simp add: world_creado_eq)
  have it': "map_of (table (world_con_objetos 1001)) ''t-0'' = Some Item"
    using it by (simp add: world_con_objetos_table)
  have tid: "req_tallerId ?req = ''t-0''"
    by (simp add: req_slide_def)
  have get1: "\<not> fails ?down (DbGet ''t-0'')" and get2: "\<not> fails (env_of ''x'') (DbGet ''t-0'')"
    by (simp_all add: env_of_def)
  have c1: "fails ?down (S3ListObjectsV2 ''talleres/t-0/'') \<and>
    status (fst (eliminar_taller ?down world_creado ?req)) = 500 \<and>
    table (snd (eliminar_taller ?down world_creado ?req)) = table world_creado \<and>
    bucket (snd (eliminar_taller ?down world_creado ?req)) = bucket world_creado"
    using eliminar_taller_blobs_primero [OF tid it get1, where r = "fst (eliminar_taller ?down world_creado ?req)"
        and w' = "snd (eliminar_taller ?down world_creado ?req)"]
    by simp
  have c2: "status (fst (eliminar_taller (env_of ''x'') world_creado ?req)) = 200 \<and>
    table (snd (eliminar_taller (env_of ''x'') world_creado ?req)) = [] \<and>
    bucket (snd (eliminar_taller (env_of ''x'') world_creado ?req)) = [] \<and>
    calls (snd (eliminar_taller (env_of ''x'') world_creado ?req))
      = calls world_creado @ [DbGet ''t-0'', S3ListObjectsV2 ''talleres/t-0/'',
          S3DeleteObjects [''talleres/t-0/portada-t-1.png''], DbDelete ''t-0'']"
    using eliminar_taller_blobs_primero [OF tid it get2, where r = "fst (eliminar_taller (env_of ''x'') world_creado ?req)"
        and w' = "snd (eliminar_taller (env_of ''x'') world_creado ?req)"]
    by (simp add: env_of_def world_creado_eq)
  have c3: "1000 < length (filter (prefix ''talleres/t-0/'') (map fst (bucket (world_con_objetos 1001)))) \<and>
    status (fst (eliminar_taller (env_of ''x'') (world_con_objetos 1001) ?req)) = 200 \<and>
    table (snd (eliminar_taller (env_of ''x'') (world_con_objetos 1001) ?req)) = [] \<and>
    console (snd (eliminar_taller (env_of ''x'') (world_con_objetos 1001) ?req))
      = [ConsoleWarn truncated_warning]"
    using eliminar_taller_blobs_primero [OF tid it' get2,
        where r = "fst (eliminar_taller (env_of ''x'') (world_con_objetos 1001) ?req)"
        and w' = "snd (eliminar_taller (env_of ''x'') (world_con_objetos 1001) ?req)"]
    by (simp add: env_of_def world_con_objetos_listed world_con_objetos_table world_con_objetos_console
        world_creado_eq del: length_filter_map)
  show ?thesis using c1 c2 c3 by simp
qed

section \<open>POST /talleres/:tallerId/slides: one request at a time\<close>

lemma subir_imagen_Inr:
  assumes "subir_imagen e tid imagen w = (Inr url, w1)"
  shows "url = map_option (\<lambda>f. s3_location e (imagen_key e tid f)) imagen \<and>
         table w1 = table w \<and>
         calls w1 = calls w @ (case imagen of None \<Rightarrow> [] | Some f \<Rightarrow> [S3Upload (imagen_key e tid f)])"
  using assms
  by (auto simp: subir_imagen_def imagen_key_def s3_upload_def called_def Let_def
      split: option.splits if_splits)

lemma subir_imagen_sin_fallos:
  assumes "case imagen of None \<Rightarrow> True
           | Some f \<Rightarrow> readFileSync e (path f) \<noteq> None \<and> \<not> fails e (S3Upload (imagen_key e tid f))"
  shows "\<exists>url w1. subir_imagen e tid imagen w = (Inr url, w1)"
  using assms
  by (auto simp: subir_imagen_def imagen_key_def s3_upload_def called_def Let_def
      split: option.splits)

text \<open>What the handler has computed when it sends the update.\<close>

lemma agregar_slide_prepare_Inr:
  assumes "agregar_slide_prepare e w req = (Inr p, w1)"
  shows "\<exists>Item. map_of (table w) (req_tallerId req) = Some Item \<and>
           truthy (req_body req ''descripcion'') \<and>
           up_Key p = req_tallerId req \<and>
           up_UpdateExpression p =
             (if js_truthy (Item ''slides'') \<and> js_length (Item ''slides'') > 0
              then ListAppend else SetSlides) \<and>
           up_updatedAt p = toISOString e 1 \<and>
           titulo (up_nuevoSlide p) =
             ''Paso '' @ show_nat (if js_truthy (Item ''slides'')
                                   then js_length (Item ''slides'') + 1 else 1) \<and>
           descripcion (up_nuevoSlide p) = the (req_body req ''descripcion'') \<and>
           imagenUrl (up_nuevoSlide p) =
             map_option (\<lambda>f. s3_location e (imagen_key e (req_tallerId req) f)) (req_file req) \<and>
           table w1 = table w \<and>
           calls w1 = calls w @ [DbGet (req_tallerId req)]
                        @ (case req_file req of None \<Rightarrow> []
                           | Some f \<Rightarrow> [S3Upload (imagen_key e (req_tallerId req) f)])"
proof -
  from assms obtain Item where get: "map_of (table w) (req_tallerId req) = Some Item"
    and d: "truthy (req_body req ''descripcion'')" and g: "\<not> fails e (DbGet (req_tallerId req))"
    by (auto simp: agregar_slide_prepare_def Let_def dynamo_get_def error500_def
        split: if_splits option.splits prod.splits sum.splits)
  from assms get d g obtain url w2 where
    up: "subir_imagen e (req_tallerId req) (req_file req) (called (DbGet (req_tallerId req)) w) = (Inr url, w2)"
    by (auto simp: agregar_slide_prepare_def Let_def dynamo_get_def error500_def
        split: prod.splits sum.splits)
  from assms get d g up show ?thesis
    using subir_imagen_Inr [OF up]
    by (auto simp: agregar_slide_prepare_def Let_def dynamo_get_def called_def)
qed

lemma agregar_slide_prepare_sin_fallos:
  assumes "map_of (table w) (req_tallerId req) = Some Item" and "sin_fallos e req"
  shows "\<exists>p w1. agregar_slide_prepare e w req = (Inr p, w1)"
proof -
  obtain url w2 where
    "subir_imagen e (req_tallerId req) (req_file req) (called (DbGet (req_tallerId req)) w) = (Inr url, w2)"
    using assms(2) subir_imagen_sin_fallos [where imagen = "req_file req" and e = e and tid = "req_tallerId req"]
    unfolding sin_fallos_def by blast
  then show ?thesis
    using assms by (simp add: agregar_slide_prepare_def Let_def dynamo_get_def sin_fallos_def)
qed

lemma agregar_slide_commit_201:
  assumes "agregar_slide_commit e w p = (r, w')" and "status r = 201"
    and "map_of (table w) (up_Key p) = Some Item" and "slides_is_list Item"
    and "up_UpdateExpression p =
             (if js_truthy (Item ''slides'') \<and> js_length (Item ''slides'') > 0
              then ListAppend else SetSlides)"
  shows "r = \<lparr>status = 201, body = SlideBody (up_nuevoSlide p)
                (Item(''slides'' \<mapsto> Slides (slides_of Item @ [up_nuevoSlide p]),
                      ''updatedAt'' \<mapsto> Str (up_updatedAt p)))\<rparr> \<and>
         table w' = AList.update (up_Key p)
                (Item(''slides'' \<mapsto> Slides (slides_of Item @ [up_nuevoSlide p]),
                      ''updatedAt'' \<mapsto> Str (up_updatedAt p))) (table w) \<and>
         calls w' = calls w @ [DbUpdate (up_Key p)]"
  using assms
  by (auto simp: agregar_slide_commit_def dynamo_update_def called_def error500_def Let_def
      slides_is_list_def slides_of_def js_truthy_def js_length_def
      split: if_splits option.splits attr.splits)

lemma agregar_slide_commit_sin_fallos:
  assumes "\<not> fails e (DbUpdate (up_Key p))"
    and "map_of (table w) (up_Key p) = Some Item" and "slides_is_list Item"
    and "up_UpdateExpression p =
             (if js_truthy (Item ''slides'') \<and> js_length (Item ''slides'') > 0
              then ListAppend else SetSlides)"
  shows "status (fst (agregar_slide_commit e w p)) = 201"
  using assms
  by (auto simp: agregar_slide_commit_def dynamo_update_def called_def error500_def Let_def
      slides_is_list_def slides_of_def js_truthy_def js_length_def
      split: if_splits option.splits attr.splits)

lemma titulo_numero:
  assumes "slides_is_list Item"
  shows "(if js_truthy (Item ''slides'') then js_length (Item ''slides'') + 1 else 1)
           = length (slides_of Item) + 1"
  using assms
  by (auto simp: slides_is_list_def slides_of_def js_truthy_def js_length_def
      split: option.splits attr.splits)

text \<open>One request served alone, answered with 201.\<close>

lemma agregar_slide_201:
  assumes "map_of (table w) (req_tallerId req) = Some Item" and "slides_is_list Item"
    and "agregar_slide e w req = (r, w')" and "status r = 201"
  shows "\<exists>s. r = \<lparr>status = 201, body = SlideBody s
                (Item(''slides'' \<mapsto> Slides (slides_of Item @ [s]),
                      ''updatedAt'' \<mapsto> Str (toISOString e 1)))\<rparr> \<and>
         table w' = AList.update (req_tallerId req)
                (Item(''slides'' \<mapsto> Slides (slides_of Item @ [s]),
                      ''updatedAt'' \<mapsto> Str (toISOString e 1))) (table w) \<and>
         titulo s = ''Paso '' @ show_nat (length (slides_of Item) + 1) \<and>
         descripcion s = the (req_body req ''descripcion'') \<and>
         truthy (req_body req ''descripcion'') \<and>
         imagenUrl s = map_option (\<lambda>f. s3_location e (imagen_key e (req_tallerId req) f)) (req_file req) \<and>
         calls w' = calls w @ [DbGet (req_tallerId req)]
                      @ (case req_file req of None \<Rightarrow> []
                         | Some f \<Rightarrow> [S3Upload (imagen_key e (req_tallerId req) f)])
                      @ [DbUpdate (req_tallerId req)]"
proof (cases "agregar_slide_prepare e w req")
  case (Pair a w1)
  show ?thesis
  proof (cases a)
    case (Inl r0)
    with Pair assms(3,4) have "status r0 = 201"
      by (simp add: agregar_slide_def)
    moreover from Pair Inl have "status r0 \<noteq> 201"
      by (auto simp: agregar_slide_prepare_def Let_def error500_def
          split: if_splits prod.splits sum.splits option.splits)
    ultimately show ?thesis by simp
  next
    case (Inr p)
    with Pair have prep: "agregar_slide_prepare e w req = (Inr p, w1)" by simp
    from agregar_slide_prepare_Inr [OF prep] assms(1) have
      p: "truthy (req_body req ''descripcion'')" "up_Key p = req_tallerId req"
        "up_UpdateExpression p =
             (if js_truthy (Item ''slides'') \<and> js_length (Item ''slides'') > 0
              then ListAppend else SetSlides)"
        "up_updatedAt p = toISOString e 1"
        "titulo (up_nuevoSlide p) = ''Paso '' @ show_nat (if js_truthy (Item ''slides'')
                                   then js_length (Item ''slides'') + 1 else 1)"
        "descripcion (up_nuevoSlide p) = the (req_body req ''descripcion'')"
        "imagenUrl (up_nuevoSlide p) =
             map_option (\<lambda>f. s3_location e (imagen_key e (req_tallerId req) f)) (req_file req)"
        "table w1 = table w"
        "calls w1 = calls w @ [DbGet (req_tallerId req)]
                        @ (case req_file req of None \<Rightarrow> []
                           | Some f \<Rightarrow> [S3Upload (imagen_key e (req_tallerId req) f)])"
      by auto
    from prep assms(3) have com: "agregar_slide_commit e w1 p = (r, w')"
      by (simp add: agregar_slide_def)
    have get1: "map_of (table w1) (up_Key p) = Some Item"
      using assms(1) p(2,8) by simp
    from agregar_slide_commit_201 [OF com assms(4) get1 assms(2) p(3)] p
    show ?thesis
      by (intro exI [of _ "up_nuevoSlide p"]) (simp add: titulo_numero [OF assms(2)])
  qed
qed

lemma agregar_slide_sin_fallos:
  assumes "map_of (table w) (req_tallerId req) = Some Item" and "slides_is_list Item"
    and "sin_fallos e req"
  shows "status (fst (agregar_slide e w req)) = 201"
proof -
  obtain p w1 where prep: "agregar_slide_prepare e w req = (Inr p, w1)"
    using agregar_slide_prepare_sin_fallos [OF assms(1,3)] by blast
  from agregar_slide_prepare_Inr [OF prep] assms(1) have
    p: "up_Key p = req_tallerId req"
       "up_UpdateExpression p =
             (if js_truthy (Item ''slides'') \<and> js_length (Item ''slides'') > 0
              then ListAppend else SetSlides)"
       "table w1 = table w"
    by auto
  have "status (fst (agregar_slide_commit e w1 p)) = 201"
    using agregar_slide_commit_sin_fallos [of e p w1 Item] assms p
    by (simp add: sin_fallos_def)
  then show ?thesis using prep by (simp add: agregar_slide_def)
qed

lemma slides_tras_agregar:
  "slides_is_list (Item(''slides'' \<mapsto> Slides xs, ''updatedAt'' \<mapsto> v))"
  "slides_of (Item(''slides'' \<mapsto> Slides xs, ''updatedAt'' \<mapsto> v)) = xs"
  by (simp_all add: slides_is_list_def slides_of_def)

text \<open>
  C2. One request to add a slide, served alone, for a taller that is in the table and whose
  \<^verbatim>\<open>slides\<close> attribute is a list, null or absent. When nothing fails the answer is 201. When
  the answer is 201, the stored item is the old item with \<^verbatim>\<open>slides\<close> set to the old list
  followed by the new slide (the one-element list when the attribute was absent) and with
  \<^verbatim>\<open>updatedAt\<close> set; both are written by the single \<^verbatim>\<open>dynamoDB.update\<close> that ends the call
  trace, and the body of the answer carries the new slide and that whole item.
\<close>

theorem agregar_slide_append:
  assumes "map_of (table w) (req_tallerId req) = Some Item" and "slides_is_list Item"
    and "agregar_slide e w req = (r, w')"
  shows "(sin_fallos e req \<longrightarrow> status r = 201) \<and>
         (status r = 201 \<longrightarrow>
            (\<exists>s Item'. body r = SlideBody s Item' \<and>
               map_of (table w') (req_tallerId req) = Some Item' \<and>
               Item' = Item(''slides'' \<mapsto> Slides (slides_of Item @ [s]),
                            ''updatedAt'' \<mapsto> Str (toISOString e 1)) \<and>
               (Item ''slides'' = None \<longrightarrow> Item' ''slides'' = Some (Slides [s])) \<and>
               descripcion s = the (req_body req ''descripcion'') \<and>
               calls w' = calls w @ [DbGet (req_tallerId req)]
                      @ (case req_file req of None \<Rightarrow> []
                         | Some f \<Rightarrow> [S3Upload (imagen_key e (req_tallerId req) f)])
                      @ [DbUpdate (req_tallerId req)]))"
proof (intro conjI impI)
  assume "sin_fallos e req"
  then show "status r = 201"
    using agregar_slide_sin_fallos [OF assms(1,2), of e] assms(3) by simp
next
  assume "status r = 201"
  from agregar_slide_201 [OF assms this] obtain s where
    s: "r = \<lparr>status = 201, body = SlideBody s
                (Item(''slides'' \<mapsto> Slides (slides_of Item @ [s]),
                      ''updatedAt'' \<mapsto> Str (toISOString e 1)))\<rparr>"
       "table w' = AList.update (req_tallerId req)
                (Item(''slides'' \<mapsto> Slides (slides_of Item @ [s]),
                      ''updatedAt'' \<mapsto> Str (toISOString e 1))) (table w)"
       "calls w' = calls w @ [DbGet (req_tallerId req)]
                      @ (case req_file req of None \<Rightarrow> []
                         | Some f \<Rightarrow> [S3Upload (imagen_key e (req_tallerId req) f)])
                      @ [DbUpdate (req_tallerId req)]"
       "descripcion s = the (req_body req ''descripcion'')"
    by blast
  have "Item ''slides'' = None \<Longrightarrow> slides_of Item = []"
    by (simp add: slides_of_def)
  with s show "\<exists>s Item'. body r = SlideBody s Item' \<and>
               map_of (table w') (req_tallerId req) = Some Item' \<and>
               Item' = Item(''slides'' \<mapsto> Slides (slides_of Item @ [s]),
                            ''updatedAt'' \<mapsto> Str (toISOString e 1)) \<and>
               (Item ''slides'' = None \<longrightarrow> Item' ''slides'' = Some (Slides [s])) \<and>
               descripcion s = the (req_body req ''descripcion'') \<and>
               calls w' = calls w @ [DbGet (req_tallerId req)]
                      @ (case req_file req of None \<Rightarrow> []
                         | Some f \<Rightarrow> [S3Upload (imagen_key e (req_tallerId req) f)])
                      @ [DbUpdate (req_tallerId req)]"
    by (intro exI [of _ s]) (simp add: update_conv')
qed

text \<open>
  C3, as the code has it. Requests to add a slide to one taller, served one after the other.
  When none of them fails every answer is 201. When every answer is 201, the slides of the
  taller are the old ones followed by one new slide per request, in the order of the
  requests; the title of the i-th new slide is \<open>Paso\<close>, a space and the decimal number of
  slides present before it plus one (so \<open>Paso 1\<close> to \<open>Paso N\<close> for a taller that had none),
  its description is the one sent, and its \<^verbatim>\<open>imagenUrl\<close> is null when no image was sent and
  otherwise the location that S3 reported for the uploaded image.
\<close>

theorem agregar_slides_titulos:
  assumes "map_of (table w) tid = Some Item" and "slides_is_list Item"
    and "\<forall>er \<in> set ers. req_tallerId (snd er) = tid"
    and "agregar_slides w ers = (rs, w')"
  shows "((\<forall>er \<in> set ers. sin_fallos (fst er) (snd er)) \<longrightarrow> (\<forall>r \<in> set rs. status r = 201)) \<and>
         ((\<forall>r \<in> set rs. status r = 201) \<longrightarrow>
            (\<exists>Item' new. map_of (table w') tid = Some Item' \<and>
               slides_is_list Item' \<and> slides_of Item' = slides_of Item @ new \<and>
               length new = length ers \<and>
               (\<forall>i < length ers.
                  titulo (new ! i) = ''Paso '' @ show_nat (length (slides_of Item) + i + 1) \<and>
                  descripcion (new ! i) = the (req_body (snd (ers ! i)) ''descripcion'') \<and>
                  imagenUrl (new ! i) =
                    map_option (\<lambda>f. s3_location (fst (ers ! i)) (imagen_key (fst (ers ! i)) tid f))
                      (req_file (snd (ers ! i))))))"
  using assms
proof (induction ers arbitrary: w Item rs)
  case Nil
  then show ?case by simp
next
  case (Cons er ers)
  obtain r1 w1 where one: "agregar_slide (fst er) w (snd er) = (r1, w1)"
    by (cases "agregar_slide (fst er) w (snd er)")
  obtain rs1 where rest: "agregar_slides w1 ers = (rs1, w')" and rs: "rs = r1 # rs1"
    using Cons.prems(4) one by (auto split: prod.splits)
  have tid: "req_tallerId (snd er) = tid" and tids: "\<forall>er \<in> set ers. req_tallerId (snd er) = tid"
    using Cons.prems(3) by simp_all
  have get: "map_of (table w) (req_tallerId (snd er)) = Some Item"
    using Cons.prems(1) tid by simp
  show ?case
  proof (cases "status r1 = 201")
    case False
    moreover have "sin_fallos (fst er) (snd er) \<Longrightarrow> status r1 = 201"
      using agregar_slide_sin_fallos [OF get Cons.prems(2), of "fst er"] one by simp
    ultimately show ?thesis using rs by auto
  next
    case True
    from agregar_slide_201 [OF get Cons.prems(2) one True] tid obtain s where
      s: "table w1 = AList.update tid
                (Item(''slides'' \<mapsto> Slides (slides_of Item @ [s]),
                      ''updatedAt'' \<mapsto> Str (toISOString (fst er) 1))) (table w)"
         "titulo s = ''Paso '' @ show_nat (length (slides_of Item) + 1)"
         "descripcion s = the (req_body (snd er) ''descripcion'')"
         "imagenUrl s = map_option (\<lambda>f. s3_location (fst er) (imagen_key (fst er) tid f))
                          (req_file (snd er))"
      by auto
    let ?Item1 = "Item(''slides'' \<mapsto> Slides (slides_of Item @ [s]),
                      ''updatedAt'' \<mapsto> Str (toISOString (fst er) 1))"
    have get1: "map_of (table w1) tid = Some ?Item1"
      using s(1) by (simp add: update_conv')
    note IH = Cons.IH [OF get1 slides_tras_agregar(1) tids rest]
    show ?thesis
    proof (intro conjI impI)
      assume "\<forall>er \<in> set (er # ers). sin_fallos (fst er) (snd er)"
      then show "\<forall>r \<in> set rs. status r = 201"
        using IH True rs by simp
    next
      assume "\<forall>r \<in> set rs. status r = 201"
      then have "\<forall>r \<in> set rs1. status r = 201" using rs by simp
      with IH obtain Item' new where
        n: "map_of (table w') tid = Some Item'"
           "slides_is_list Item'" "slides_of Item' = slides_of ?Item1 @ new"
           "length new = length ers"
           "\<forall>i < length ers.
                  titulo (new ! i) = ''Paso '' @ show_nat (length (slides_of ?Item1) + i + 1) \<and>
                  descripcion (new ! i) = the (req_body (snd (ers ! i)) ''descripcion'') \<and>
                  imagenUrl (new ! i) =
                    map_option (\<lambda>f. s3_location (fst (ers ! i)) (imagen_key (fst (ers ! i)) tid f))
                      (req_file (snd (ers ! i)))"
        by blast
      have each: "titulo ((s # new) ! i) = ''Paso '' @ show_nat (length (slides_of Item) + i + 1) \<and>
                  descripcion ((s # new) ! i) = the (req_body (snd ((er # ers) ! i)) ''descripcion'') \<and>
                  imagenUrl ((s # new) ! i) =
                    map_option (\<lambda>f. s3_location (fst ((er # ers) ! i)) (imagen_key (fst ((er # ers) ! i)) tid f))
                      (req_file (snd ((er # ers) ! i)))"
        if "i < length (er # ers)" for i
      proof (cases i)
        case 0
        then show ?thesis using s by simp
      next
        case (Suc j)
        then have "j < length ers" using that by simp
        with n(5) Suc show ?thesis by (simp add: slides_tras_agregar(2))
      qed
      show "\<exists>Item' new. map_of (table w') tid = Some Item' \<and>
               slides_is_list Item' \<and> slides_of Item' = slides_of Item @ new \<and>
               length new = length (er # ers) \<and>
               (\<forall>i < length (er # ers).
                  titulo (new ! i) = ''Paso '' @ show_nat (length (slides_of Item) + i + 1) \<and>
                  descripcion (new ! i) = the (req_body (snd ((er # ers) ! i)) ''descripcion'') \<and>
                  imagenUrl (new ! i) =
                    map_option (\<lambda>f. s3_location (fst ((er # ers) ! i)) (imagen_key (fst ((er # ers) ! i)) tid f))
                      (req_file (snd ((er # ers) ! i))))"
        using n(1,2,3,4) each
        by (intro exI [of _ Item'] exI [of _ "s # new"]) (simp add: slides_tras_agregar(2))
    qed
  qed
qed

lemmas slide_defs = agregar_slide_def agregar_slide_prepare_def agregar_slide_commit_def
  subir_imagen_def

theorem agregar_slide_append_witness:
  "(map_of (table world_sin_slides) ''t-9'' = Some [''id'' \<mapsto> Str ''t-9''] \<and>
    sin_fallos (env_of ''a'') (req_slide ''t-9'' ''uno'' None) \<and>
    status (fst (agregar_slide (env_of ''a'') world_sin_slides (req_slide ''t-9'' ''uno'' None))) = 201 \<and>
    map (map descripcion \<circ> slides_of \<circ> snd)
      (table (snd (agregar_slide (env_of ''a'') world_sin_slides (req_slide ''t-9'' ''uno'' None))))
      = [[''uno'']])"
proof -
  let ?req = "req_slide ''t-9'' ''uno'' None"
  have get: "map_of (table world_sin_slides) (req_tallerId ?req) = Some [''id'' \<mapsto> Str ''t-9'']"
    by (simp add: world_sin_slides_def req_slide_def)
  have wf: "slides_is_list [''id'' \<mapsto> Str ''t-9'']"
    by (simp add: slides_is_list_def)
  have ok: "sin_fallos (env_of ''a'') ?req"
    by (simp add: sin_fallos_def req_slide_def env_of_def truthy_def)
  have run: "map (map descripcion \<circ> slides_of \<circ> snd)
      (table (snd (agregar_slide (env_of ''a'') world_sin_slides ?req))) = [[''uno'']]"
    by (simp add: slide_defs aws_defs js_defs fixture_defs world_sin_slides_def Let_def slides_of_def)
  show ?thesis
    using get ok run
      agregar_slide_append [OF get wf, where e = "env_of ''a''"
        and r = "fst (agregar_slide (env_of ''a'') world_sin_slides ?req)"
        and w' = "snd (agregar_slide (env_of ''a'') world_sin_slides ?req)"]
    by (simp add: req_slide_def)
qed

theorem agregar_slides_titulos_witness:
  "map (req_tallerId \<circ> snd) tres_peticiones = [''t-0'', ''t-0'', ''t-0''] \<and>
   list_all (case_prod sin_fallos) tres_peticiones \<and>
   map status (fst (agregar_slides world_creado tres_peticiones)) = [201, 201, 201] \<and>
   map (map titulo \<circ> slides_of \<circ> snd) (table (snd (agregar_slides world_creado tres_peticiones)))
     = [[''Paso 1'', ''Paso 2'', ''Paso 3'']] \<and>
   map (map imagenUrl \<circ> slides_of \<circ> snd) (table (snd (agregar_slides world_creado tres_peticiones)))
     = [[None, Some ''https://s3/talleres/t-0/slide-b-0.png'', None]]"
proof -
  obtain Item where get: "map_of (table world_creado) ''t-0'' = Some Item"
    and wf: "slides_is_list Item"
    by (simp add: world_creado_eq slides_is_list_def)
  have tids: "\<forall>er \<in> set tres_peticiones. req_tallerId (snd er) = ''t-0''"
    by (simp add: tres_peticiones_def req_slide_def)
  have ok: "\<forall>er \<in> set tres_peticiones. sin_fallos (fst er) (snd er)"
    by (simp add: tres_peticiones_def sin_fallos_def req_slide_def env_of_def truthy_def
        imagen_key_def imagen_png_def)
  have run: "agregar_slides world_creado tres_peticiones
      = (fst (agregar_slides world_creado tres_peticiones),
         snd (agregar_slides world_creado tres_peticiones))"
    by simp
  have st: "map status (fst (agregar_slides world_creado tres_peticiones)) = [201, 201, 201]"
    using agregar_slides_titulos [OF get wf tids run] ok
    by (simp add: tres_peticiones_def list_eq_iff_nth_eq nth_Cons' split_beta)
  have ev: "map (map titulo \<circ> slides_of \<circ> snd) (table (snd (agregar_slides world_creado tres_peticiones)))
     = [[''Paso 1'', ''Paso 2'', ''Paso 3'']] \<and>
   map (map imagenUrl \<circ> slides_of \<circ> snd) (table (snd (agregar_slides world_creado tres_peticiones)))
     = [[None, Some ''https://s3/talleres/t-0/slide-b-0.png'', None]]"
    by (simp add: tres_peticiones_def world_creado_eq slide_defs aws_defs js_defs fixture_defs
        Let_def slides_of_def show_nat.simps digit_char_def)
  show ?thesis using tids ok st ev by (simp add: list_all_iff split_beta tres_peticiones_def)
qed

text \<open>
  The titles are in Spanish: the first slide added to a new taller is titled \<open>Paso 1\<close>, which
  is not the string \<open>Step 1\<close>.
\<close>

theorem agregar_slides_titulos_counterexample:
  "map status (fst (agregar_slides world_creado [(env_of ''a'', req_slide ''t-0'' ''uno'' None)])) = [201] \<and>
   map (map titulo \<circ> slides_of \<circ> snd)
     (table (snd (agregar_slides world_creado [(env_of ''a'', req_slide ''t-0'' ''uno'' None)])))
     = [[''Paso 1'']] \<and>
   ''Paso 1'' \<noteq> ''Step 1''"
  by (simp add: world_creado_eq slide_defs aws_defs js_defs fixture_defs
        Let_def slides_of_def show_nat.simps digit_char_def)

section \<open>POST /talleres/:tallerId/slides: two requests at once\<close>

lemma agregar_slide_commit_SetSlides:
  assumes "\<not> fails e (DbUpdate (up_Key p))" and "up_UpdateExpression p = SetSlides"
    and "map_of (table w) (up_Key p) = Some It"
  shows "agregar_slide_commit e w p =
     (\<lparr>status = 201, body = SlideBody (up_nuevoSlide p)
         (It(''slides'' \<mapsto> Slides [up_nuevoSlide p], ''updatedAt'' \<mapsto> Str (up_updatedAt p)))\<rparr>,
      w\<lparr>calls := calls w @ [DbUpdate (up_Key p)],
        table := AList.update (up_Key p)
         (It(''slides'' \<mapsto> Slides [up_nuevoSlide p], ''updatedAt'' \<mapsto> Str (up_updatedAt p)))
         (table w)\<rparr>)"
  using assms by (simp add: agregar_slide_commit_def dynamo_update_def called_def Let_def)

lemma agregar_slide_commit_ListAppend:
  assumes "\<not> fails e (DbUpdate (up_Key p))" and "up_UpdateExpression p = ListAppend"
    and "map_of (table w) (up_Key p) = Some It" and "It ''slides'' = Some (Slides xs)"
  shows "agregar_slide_commit e w p =
     (\<lparr>status = 201, body = SlideBody (up_nuevoSlide p)
         (It(''slides'' \<mapsto> Slides (xs @ [up_nuevoSlide p]), ''updatedAt'' \<mapsto> Str (up_updatedAt p)))\<rparr>,
      w\<lparr>calls := calls w @ [DbUpdate (up_Key p)],
        table := AList.update (up_Key p)
         (It(''slides'' \<mapsto> Slides (xs @ [up_nuevoSlide p]), ''updatedAt'' \<mapsto> Str (up_updatedAt p)))
         (table w)\<rparr>)"
  using assms by (simp add: agregar_slide_commit_def dynamo_update_def called_def Let_def)

lemma update_expression_de_slides:
  assumes "slides_is_list Item"
  shows "(if js_truthy (Item ''slides'') \<and> js_length (Item ''slides'') > 0
          then ListAppend else SetSlides)
         = (if slides_of Item = [] then SetSlides else ListAppend)"
    and "slides_of Item \<noteq> [] \<Longrightarrow> Item ''slides'' = Some (Slides (slides_of Item))"
  using assms
  by (auto simp: slides_is_list_def slides_of_def js_truthy_def js_length_def
      split: option.splits attr.splits)

text \<open>
  Two requests for the same taller, both prepared before either update is sent. The update
  expression of each was chosen from the item it read: for a taller without slides both
  send \<^verbatim>\<open>SET slides = :nuevo_slide\<close> and the second overwrites the first; for a taller
  with slides both send \<^verbatim>\<open>list_append\<close> and both slides are kept.
\<close>

lemma agregar_slide_interleaved_general:
  assumes get: "map_of (table w) tid = Some Item" and wf: "slides_is_list Item"
    and tidA: "req_tallerId reqA = tid" and tidB: "req_tallerId reqB = tid"
    and okA: "sin_fallos eA reqA" and okB: "sin_fallos eB reqB"
  shows "\<exists>rA rB w' sA sB.
           agregar_slide_interleaved eA reqA eB reqB w = ((rA, rB), w') \<and>
           status rA = 201 \<and> status rB = 201 \<and>
           descripcion sA = the (req_body reqA ''descripcion'') \<and>
           descripcion sB = the (req_body reqB ''descripcion'') \<and>
           map_of (table w') tid =
             Some (Item(''slides'' \<mapsto> Slides (if slides_of Item = [] then [sB]
                                                  else slides_of Item @ [sA, sB]),
                        ''updatedAt'' \<mapsto> Str (toISOString eB 1)))"
proof -
  obtain pA w1 where prepA: "agregar_slide_prepare eA w reqA = (Inr pA, w1)"
    using agregar_slide_prepare_sin_fallos [of w reqA Item eA] get tidA okA by auto
  from agregar_slide_prepare_Inr [OF prepA] get tidA have
    a: "up_Key pA = tid"
       "up_UpdateExpression pA = (if slides_of Item = [] then SetSlides else ListAppend)"
       "up_updatedAt pA = toISOString eA 1"
       "descripcion (up_nuevoSlide pA) = the (req_body reqA ''descripcion'')"
       "table w1 = table w"
    by (auto simp: update_expression_de_slides(1) [OF wf])
  have get1: "map_of (table w1) (req_tallerId reqB) = Some Item"
    using get a(5) tidB by simp
  obtain pB w2 where prepB: "agregar_slide_prepare eB w1 reqB = (Inr pB, w2)"
    using agregar_slide_prepare_sin_fallos [OF get1 okB] by auto
  from agregar_slide_prepare_Inr [OF prepB] get1 tidB have
    b: "up_Key pB = tid"
       "up_UpdateExpression pB = (if slides_of Item = [] then SetSlides else ListAppend)"
       "up_updatedAt pB = toISOString eB 1"
       "descripcion (up_nuevoSlide pB) = the (req_body reqB ''descripcion'')"
       "table w2 = table w1"
    by (auto simp: update_expression_de_slides(1) [OF wf])
  have fA: "\<not> fails eA (DbUpdate (up_Key pA))" and fB: "\<not> fails eB (DbUpdate (up_Key pB))"
    using okA okB tidA tidB a(1) b(1) by (simp_all add: sin_fallos_def)
  have get2: "map_of (table w2) (up_Key pA) = Some Item"
    using get a(1,5) b(5) by simp
  define new where "new = (if slides_of Item = [] then [up_nuevoSlide pA]
                           else slides_of Item @ [up_nuevoSlide pA])"
  define ItA where "ItA = Item(''slides'' \<mapsto> Slides new, ''updatedAt'' \<mapsto> Str (up_updatedAt pA))"
  define w3 where "w3 = w2\<lparr>calls := calls w2 @ [DbUpdate (up_Key pA)],
                            table := AList.update (up_Key pA) ItA (table w2)\<rparr>"
  define new' where "new' = (if slides_of Item = [] then [up_nuevoSlide pB]
                            else slides_of Item @ [up_nuevoSlide pA, up_nuevoSlide pB])"
  define ItB where "ItB = ItA(''slides'' \<mapsto> Slides new', ''updatedAt'' \<mapsto> Str (up_updatedAt pB))"
  define w4 where "w4 = w3\<lparr>calls := calls w3 @ [DbUpdate (up_Key pB)],
                            table := AList.update (up_Key pB) ItB (table w3)\<rparr>"
  have comA: "agregar_slide_commit eA w2 pA =
      (\<lparr>status = 201, body = SlideBody (up_nuevoSlide pA) ItA\<rparr>, w3)"
  proof (cases "slides_of Item = []")
    case True
    then show ?thesis
      using agregar_slide_commit_SetSlides [OF fA _ get2] a(2)
      by (simp add: w3_def ItA_def new_def)
  next
    case False
    then show ?thesis
      using agregar_slide_commit_ListAppend [OF fA _ get2 update_expression_de_slides(2) [OF wf False]] a(2)
      by (simp add: w3_def ItA_def new_def)
  qed
  have get3: "map_of (table w3) (up_Key pB) = Some ItA"
    using a(1) b(1) by (simp add: w3_def update_conv')
  have comB: "agregar_slide_commit eB w3 pB =
      (\<lparr>status = 201, body = SlideBody (up_nuevoSlide pB) ItB\<rparr>, w4)"
  proof (cases "slides_of Item = []")
    case True
    then show ?thesis
      using agregar_slide_commit_SetSlides [OF fB _ get3] b(2)
      by (simp add: w4_def ItB_def new'_def)
  next
    case False
    have "ItA ''slides'' = Some (Slides (slides_of Item @ [up_nuevoSlide pA]))"
      using False by (simp add: ItA_def new_def)
    from agregar_slide_commit_ListAppend [OF fB _ get3 this] b(2) False
    show ?thesis
      by (simp add: w4_def ItB_def new'_def)
  qed
  have run: "agregar_slide_interleaved eA reqA eB reqB w =
      ((\<lparr>status = 201, body = SlideBody (up_nuevoSlide pA) ItA\<rparr>,
        \<lparr>status = 201, body = SlideBody (up_nuevoSlide pB) ItB\<rparr>), w4)"
    by (simp add: agregar_slide_interleaved_def prepA prepB comA comB)
  have fin: "map_of (table w4) tid =
      Some (Item(''slides'' \<mapsto> Slides (if slides_of Item = [] then [up_nuevoSlide pB]
                                           else slides_of Item @ [up_nuevoSlide pA, up_nuevoSlide pB]),
                 ''updatedAt'' \<mapsto> Str (toISOString eB 1)))"
    using b(1,3) by (simp add: w4_def ItB_def ItA_def new'_def update_conv')
  show ?thesis
    using run fin a(4) b(4) by (metis response.select_convs(1))
qed

text \<open>
  C1 fails on the code. The taller of \<^const>\<open>world_creado\<close> has just been created and has no
  slides. Two requests add a slide to it at the same time (\<^const>\<open>dos_a_la_vez\<close>): both are
  answered with 201, and afterwards the taller has one slide, the second one; the first
  update is lost.
\<close>

theorem agregar_slide_interleaved_lost_update:
  "status (fst (fst dos_a_la_vez)) = 201 \<and> status (snd (fst dos_a_la_vez)) = 201 \<and>
   map (map descripcion \<circ> slides_of \<circ> snd) (table world_creado) = [[]] \<and>
   map (map descripcion \<circ> slides_of \<circ> snd) (table (snd dos_a_la_vez)) = [[''dos'']]"
  by (simp add: dos_a_la_vez_def agregar_slide_interleaved_def world_creado_eq slide_defs aws_defs
      js_defs fixture_defs Let_def slides_of_def)

end
